theory Spec2Isabelle
  imports Complex_Main "HOL-Library.Monad_Syntax"
begin

section \<open>Numbers\<close>

text \<open>
  Candle prices, zone bounds, forecasts and risk levels are modelled as exact reals:
  rounding of the 64-bit floats of the source is not modelled. Values that the source
  obtains from the indicator library, or from a division whose divisor may be zero, may
  be infinite or NaN; they are modelled by \<open>npfloat\<close>, with the comparisons of
  IEEE floats (every comparison with NaN is false). Signed zeros are not modelled.
\<close>

datatype npfloat = Fin real | PosInf | NegInf | NaN

fun np_lt :: "npfloat \<Rightarrow> npfloat \<Rightarrow> bool" where
  "np_lt NaN _ = False"
| "np_lt _ NaN = False"
| "np_lt (Fin a) (Fin b) = (a < b)"
| "np_lt NegInf NegInf = False"
| "np_lt NegInf _ = True"
| "np_lt _ NegInf = False"
| "np_lt PosInf _ = False"
| "np_lt _ PosInf = True"

definition np_gt :: "npfloat \<Rightarrow> npfloat \<Rightarrow> bool" where
  "np_gt a b = np_lt b a"

definition np_eq :: "npfloat \<Rightarrow> npfloat \<Rightarrow> bool" where
  "np_eq a b = (a \<noteq> NaN \<and> a = b)"

definition np_le :: "npfloat \<Rightarrow> npfloat \<Rightarrow> bool" where
  "np_le a b = (np_lt a b \<or> np_eq a b)"

definition np_ge :: "npfloat \<Rightarrow> npfloat \<Rightarrow> bool" where
  "np_ge a b = np_le b a"

text \<open>\<open>x * c\<close> for a finite constant \<open>c\<close>.\<close>

fun np_scale :: "npfloat \<Rightarrow> real \<Rightarrow> npfloat" where
  "np_scale (Fin a) c = Fin (a * c)"
| "np_scale PosInf c = (if 0 < c then PosInf else if c < 0 then NegInf else NaN)"
| "np_scale NegInf c = (if 0 < c then NegInf else if c < 0 then PosInf else NaN)"
| "np_scale NaN c = NaN"

text \<open>\<open>a / b\<close> on numpy floats: a zero divisor gives an infinity or NaN, not an exception.\<close>

definition np_div :: "real \<Rightarrow> real \<Rightarrow> npfloat" where
  "np_div a b =
     (if b \<noteq> 0 then Fin (a / b)
      else if 0 < a then PosInf else if a < 0 then NegInf else NaN)"

text \<open>\<open>pd.isna\<close> and \<open>pd.notna\<close>.\<close>

definition isna :: "npfloat \<Rightarrow> bool" where
  "isna x = (x = NaN)"

definition notna :: "npfloat \<Rightarrow> bool" where
  "notna x = (x \<noteq> NaN)"

section \<open>Candle series\<close>

record candle =
  Open :: real
  High :: real
  Low :: real
  Close :: real
  Volume :: real

text \<open>\<open>s.tail(n)\<close>: the last \<open>n\<close> entries (all of them when there are fewer).\<close>

definition tail :: "nat \<Rightarrow> 'a list \<Rightarrow> 'a list" where
  "tail n xs = drop (length xs - n) xs"

text \<open>\<open>s.iloc[-k]\<close> for \<open>k \<ge> 1\<close>; \<open>None\<close> is the IndexError of the source.\<close>

definition iloc_neg :: "'a list \<Rightarrow> nat \<Rightarrow> 'a option" where
  "iloc_neg xs k = (if 1 \<le> k \<and> k \<le> length xs then Some (xs ! (length xs - k)) else None)"

section \<open>Forecaster\<close>

record forecast_row =
  yhat :: real
  yhat_lower :: real
  yhat_upper :: real

text \<open>
  \<open>forecast_prices(df, periods)\<close>. \<open>None\<close> is the \<open>None\<close> of the source;
  \<open>range(periods)\<close> is empty for a negative \<open>periods\<close>.
\<close>

definition forecast_prices :: "candle list \<Rightarrow> int \<Rightarrow> forecast_row list option" where
  "forecast_prices df periods =
     (if length df < 10 then None
      else
        let recent_prices = tail 10 (map Close df);
            trend = (last recent_prices - hd recent_prices) / real (length recent_prices);
            last_price = last recent_prices
        in Some (map (\<lambda>i. let forecast_price = last_price + trend * (real i + 1)
                            in \<lparr>yhat = forecast_price,
                                yhat_lower = forecast_price * 0.95,
                                yhat_upper = forecast_price * 1.05\<rparr>)
                     [0..<nat periods]))"

section \<open>Python values\<close>

text \<open>
  A Python string is a list of pieces: literal text, or a number rendered by a format
  specification (\<open>Dec n x\<close> for \<open>{x:.nf}\<close>, \<open>SDec n x\<close> for \<open>{x:+.nf}\<close>). The
  digits a number renders to are not modelled. The arrow character of the report strings
  is written \<open>->\<close>.
\<close>

datatype piece = Txt string | Dec nat npfloat | SDec nat npfloat

datatype pyval =
    PNone
  | PNum npfloat
  | PStr "piece list"
  | PDict "(string \<times> pyval) list"

type_synonym dict = "(string \<times> pyval) list"

abbreviation lit :: "string \<Rightarrow> pyval" where
  "lit s \<equiv> PStr [Txt s]"

abbreviation num :: "real \<Rightarrow> pyval" where
  "num x \<equiv> PNum (Fin x)"

text \<open>\<open>d[k]\<close> on a value that should be a dict; \<open>None\<close> is a KeyError or TypeError.\<close>

fun item :: "pyval \<Rightarrow> string \<Rightarrow> pyval option" where
  "item (PDict kvs) k = map_of kvs k"
| "item _ k = None"

text \<open>\<open>d.get(k, default)\<close>.\<close>

definition dict_get :: "dict \<Rightarrow> string \<Rightarrow> pyval \<Rightarrow> pyval" where
  "dict_get d k dflt = (case map_of d k of Some v \<Rightarrow> v | None \<Rightarrow> dflt)"

text \<open>
  \<open>format_price(price, reference_price)\<close>: the second argument is unused. A price
  that is not a number (the string \<open>N/A\<close> of the breakout stage, or \<open>None\<close>) ends in
  the \<open>except\<close> branch or in \<open>pd.isna\<close>, and gives \<open>N/A\<close> as well.
\<close>

fun format_price :: "pyval \<Rightarrow> piece list" where
  "format_price (PNum price) =
     (if np_eq price (Fin 0) \<or> isna price then [Txt ''N/A'']
      else if np_lt price (Fin 100) then [Txt ''$'', Dec 4 price]
      else [Txt ''$'', Dec 2 price])"
| "format_price _ = [Txt ''N/A'']"

definition format_strategy_number :: "npfloat \<Rightarrow> piece list" where
  "format_strategy_number v = (if isna v then [Txt ''N/A''] else [Dec 2 v])"

section \<open>Indicator library\<close>

text \<open>
  The indicator library (\<open>ta\<close>) and the chart renderer are external. Their outputs on
  the series under analysis are the fields of \<open>ta_lib\<close>: the theorems hold for every
  value the library may return, NaN and the infinities included.
\<close>

record ta_lib =
  rsi_last :: npfloat        \<comment> \<open>\<open>calculate_rsi(df).iloc[-1]\<close>\<close>
  rsi_prev :: npfloat        \<comment> \<open>\<open>calculate_rsi(df).iloc[-2]\<close>\<close>
  stoch_k_last :: npfloat    \<comment> \<open>\<open>stoch_k.iloc[-1]\<close>\<close>
  stoch_k_prev :: npfloat    \<comment> \<open>\<open>stoch_k.iloc[-2]\<close>\<close>
  stoch_d_last :: npfloat    \<comment> \<open>\<open>stoch_d.iloc[-1]\<close>\<close>
  ema100_raw :: npfloat      \<comment> \<open>\<open>ema100.iloc[-1]\<close> in \<open>calculate_ema\<close>\<close>
  ema200_raw :: npfloat      \<comment> \<open>\<open>ema200.iloc[-1]\<close> in \<open>calculate_ema\<close>\<close>
  kc_hband :: npfloat        \<comment> \<open>\<open>kc.keltner_channel_hband().iloc[-1]\<close>\<close>
  kc_mband :: npfloat        \<comment> \<open>\<open>kc.keltner_channel_mband().iloc[-1]\<close>\<close>
  kc_lband :: npfloat        \<comment> \<open>\<open>kc.keltner_channel_lband().iloc[-1]\<close>\<close>
  rsi_bull :: npfloat        \<comment> \<open>RSI of the bullish copy, last position\<close>
  stoch_bull :: npfloat      \<comment> \<open>\<open>%K\<close> of the bullish copy, last position\<close>
  rsi_bear :: npfloat        \<comment> \<open>RSI of the bearish copy, last position\<close>
  stoch_bear :: npfloat      \<comment> \<open>\<open>%K\<close> of the bearish copy, last position\<close>
  chart_base64 :: string     \<comment> \<open>the encoded chart file, or the empty string\<close>

record emas =
  ema100 :: npfloat
  ema200 :: npfloat

text \<open>
  \<open>calculate_ema\<close>. On an empty frame the read of the last close raises in the
  \<open>try\<close> block and again in the handler: \<open>None\<close>.
\<close>

definition calculate_ema :: "ta_lib \<Rightarrow> candle list \<Rightarrow> emas option" where
  "calculate_ema L df =
     (case iloc_neg (map Close df) 1 of
        None \<Rightarrow> None
      | Some c \<Rightarrow>
          let ema100_val = (if notna (ema100_raw L) then ema100_raw L else Fin c);
              ema200_val = (if notna (ema200_raw L) then ema200_raw L else Fin c);
              ema100_val = (if np_eq ema100_val (Fin 0) then Fin c else ema100_val);
              ema200_val = (if np_eq ema200_val (Fin 0) then Fin c else ema200_val)
          in Some \<lparr>ema100 = ema100_val, ema200 = ema200_val\<rparr>)"

text \<open>
  \<open>calculate_keltner_channels\<close>, returning \<open>(upper, basis, lower)\<close>. On an empty
  frame the handler falls back to the price 100.
\<close>

definition calculate_keltner_channels :: "ta_lib \<Rightarrow> candle list \<Rightarrow> npfloat \<times> npfloat \<times> npfloat" where
  "calculate_keltner_channels L df =
     (case iloc_neg (map Close df) 1 of
        None \<Rightarrow> (Fin (100 * 1.02), Fin 100, Fin (100 * 0.98))
      | Some current_price \<Rightarrow>
          let upper = kc_hband L; basis = kc_mband L; lower = kc_lband L;
              upper = (if np_eq upper (Fin 0) \<or> isna upper then Fin (current_price * 1.02) else upper);
              basis = (if np_eq basis (Fin 0) \<or> isna basis then Fin current_price else basis);
              lower = (if np_eq lower (Fin 0) \<or> isna lower then Fin (current_price * 0.98) else lower)
          in (upper, basis, lower))"

section \<open>Zone detector\<close>

text \<open>
  \<open>Series.quantile(q)\<close> with the default linear interpolation, on a series without
  NaN: position \<open>(n - 1) * q\<close> of the sorted values. It is only applied to non-empty
  series.
\<close>

definition quantile :: "real list \<Rightarrow> real \<Rightarrow> real" where
  "quantile xs q =
     (let s = sort xs;
          h = real (length s - 1) * q;
          lo = nat \<lfloor>h\<rfloor>;
          hi = min (lo + 1) (length s - 1)
      in s ! lo + (h - real lo) * (s ! hi - s ! lo))"

text \<open>
  \<open>s.rolling(window=w)\<close>: at each position the window of the last \<open>w\<close> values, or
  \<open>None\<close> (NaN after aggregation) while fewer than \<open>w\<close> values are available.
\<close>

definition rolling :: "nat \<Rightarrow> real list \<Rightarrow> real list option list" where
  "rolling w xs =
     map (\<lambda>i. if i + 1 < w then None else Some (take w (drop (i + 1 - w) xs))) [0..<length xs]"

definition dropna :: "'a option list \<Rightarrow> 'a list" where
  "dropna xs = List.map_filter (\<lambda>x. x) xs"

type_synonym zone = "real \<times> real"

text \<open>
  \<open>detect_support_resistance_zones(df)\<close> with the default lookback of 20, returning
  \<open>((support_low, support_high), (resistance_low, resistance_high))\<close>. The aggregations
  skip NaN; with 20 or more candles the last window is complete, so they range over
  non-empty lists. \<open>None\<close>: on an empty frame the read of the last close raises, in the
  \<open>try\<close> block and in the handler.
\<close>

definition detect_support_resistance_zones :: "candle list \<Rightarrow> (zone \<times> zone) option" where
  "detect_support_resistance_zones df =
     (let lookback = 20 in
      if length df < lookback then
        (case iloc_neg (map Close df) 1 of
           None \<Rightarrow> None
         | Some current_price \<Rightarrow>
             Some ((current_price * 0.95, current_price * 0.98),
                   (current_price * 1.02, current_price * 1.05)))
      else
        let highs = map (map_option (\<lambda>w. Max (set w))) (rolling lookback (map High df));
            lows = map (map_option (\<lambda>w. Min (set w))) (rolling lookback (map Low df));
            recent_highs = dropna (tail lookback highs);
            recent_lows = dropna (tail lookback lows);
            resistance_high = Max (set recent_highs);
            resistance_low = quantile recent_highs 0.8;
            support_high = quantile recent_lows 0.2;
            support_low = Min (set recent_lows)
        in Some ((support_low, support_high), (resistance_low, resistance_high)))"

section \<open>Signal engine\<close>

definition CANDLE_LIMIT :: nat where
  "CANDLE_LIMIT = 50"

text \<open>\<open>fetch_current_price\<close> is a placeholder that returns \<open>None\<close> for every symbol.\<close>

definition fetch_current_price :: "real option" where
  "fetch_current_price = None"

text \<open>\<open>sum\<close> of a list of booleans.\<close>

definition sum_bools :: "bool list \<Rightarrow> nat" where
  "sum_bools bs = length (filter (\<lambda>b. b) bs)"

record conditions =
  bullish_rsi :: bool
  bearish_rsi :: bool
  bullish_stoch :: bool
  bearish_stoch :: bool
  bullish_price :: bool
  bearish_price :: bool
  bullish_ema :: bool
  bearish_ema :: bool
  price_momentum :: npfloat
  bullish_momentum :: bool
  bearish_momentum :: bool
  not_overbought :: bool
  not_oversold :: bool
  bullish_points :: nat
  bearish_points :: nat

text \<open>
  The signal conditions and the score of \<open>run_strategy\<close>, from the library values, the
  EMA pair, the Keltner basis, the current price and the close 20 positions from the end.
\<close>

definition signal_conditions :: "ta_lib \<Rightarrow> emas \<Rightarrow> npfloat \<Rightarrow> real \<Rightarrow> real \<Rightarrow> conditions" where
  "signal_conditions L e basis_kc current_price close_20 =
     (let rsi_crossover = (np_gt (rsi_last L) (Fin 50) \<and> np_le (rsi_prev L) (Fin 50));
          rsi_crossunder = (np_lt (rsi_last L) (Fin 50) \<and> np_ge (rsi_prev L) (Fin 50));
          stoch_crossover = (np_gt (stoch_k_last L) (Fin 20) \<and> np_le (stoch_k_prev L) (Fin 20));
          stoch_crossunder = (np_lt (stoch_k_last L) (Fin 80) \<and> np_ge (stoch_k_prev L) (Fin 80));
          b_rsi = (rsi_crossover \<or> np_gt (rsi_last L) (Fin 52));
          s_rsi = (rsi_crossunder \<or> np_lt (rsi_last L) (Fin 48));
          b_stoch = (np_gt (stoch_k_last L) (Fin 20)
                       \<and> (stoch_crossover \<or> np_gt (stoch_k_last L) (Fin 45)));
          s_stoch = (np_lt (stoch_k_last L) (Fin 80)
                       \<and> (stoch_crossunder \<or> np_lt (stoch_k_last L) (Fin 55)));
          b_price = np_gt (Fin current_price) (np_scale basis_kc 1.001);
          s_price = np_lt (Fin current_price) (np_scale basis_kc 0.999);
          b_ema = np_gt (ema100 e) (np_scale (ema200 e) 1.001);
          s_ema = np_lt (ema100 e) (np_scale (ema200 e) 0.999);
          momentum = np_scale (np_div (current_price - close_20) close_20) 100;
          b_momentum = np_gt momentum (Fin 1.0);
          s_momentum = np_lt momentum (Fin (- 1.0))
      in \<lparr>bullish_rsi = b_rsi, bearish_rsi = s_rsi,
          bullish_stoch = b_stoch, bearish_stoch = s_stoch,
          bullish_price = b_price, bearish_price = s_price,
          bullish_ema = b_ema, bearish_ema = s_ema,
          price_momentum = momentum,
          bullish_momentum = b_momentum, bearish_momentum = s_momentum,
          not_overbought = (np_lt (rsi_last L) (Fin 70) \<and> np_lt (stoch_k_last L) (Fin 80)),
          not_oversold = (np_gt (rsi_last L) (Fin 30) \<and> np_gt (stoch_k_last L) (Fin 20)),
          bullish_points = sum_bools [b_rsi, b_stoch, b_price, b_ema, b_momentum],
          bearish_points = sum_bools [s_rsi, s_stoch, s_price, s_ema, s_momentum]\<rparr>)"

record decision =
  signal_type :: string
  confidence :: real
  sl :: "real option"
  tp :: "real option"

text \<open>Signal generation: the score, then the strong and the medium conditions in order.\<close>

definition decide :: "conditions \<Rightarrow> zone \<times> zone \<Rightarrow> real \<Rightarrow> decision" where
  "decide c zones current_price =
     (let support_zone = fst zones; resistance_zone = snd zones;
          confidence = real (max (bullish_points c) (bearish_points c)) / 5 * 100
      in
      if bullish_price c \<and> bullish_ema c \<and> bullish_momentum c then
        \<lparr>signal_type = ''BUY'', confidence = max 70 confidence,
         sl = Some (min (fst support_zone) (current_price * 0.985)),
         tp = Some (max (snd resistance_zone) (current_price * 1.015))\<rparr>
      else if bearish_price c \<and> bearish_ema c \<and> bearish_momentum c then
        \<lparr>signal_type = ''SELL'', confidence = max 70 confidence,
         sl = Some (max (snd resistance_zone) (current_price * 1.015)),
         tp = Some (min (fst support_zone) (current_price * 0.985))\<rparr>
      else if bullish_points c \<ge> 2 \<and> not_overbought c then
        \<lparr>signal_type = ''BUY'', confidence = confidence,
         sl = Some (min (fst support_zone) (current_price * 0.98)),
         tp = Some (max (snd resistance_zone) (current_price * 1.02))\<rparr>
      else if bearish_points c \<ge> 2 \<and> not_oversold c then
        \<lparr>signal_type = ''SELL'', confidence = confidence,
         sl = Some (max (snd resistance_zone) (current_price * 1.02)),
         tp = Some (min (fst support_zone) (current_price * 0.98))\<rparr>
      else
        \<lparr>signal_type = ''NO SIGNAL'', confidence = confidence, sl = None, tp = None\<rparr>)"

text \<open>
  Forecast integration. \<open>None\<close>: a forecast frame without rows has no column
  \<open>yhat\<close>, and the read raises.
\<close>

definition forecast_integration :: "candle list \<Rightarrow> zone \<times> zone \<Rightarrow> real \<Rightarrow> decision \<Rightarrow> decision option" where
  "forecast_integration df zones current_price d =
     (let support_zone = fst zones; resistance_zone = snd zones in
      if signal_type d \<noteq> ''NO SIGNAL'' then
        (case forecast_prices df 30 of
           None \<Rightarrow> Some d
         | Some [] \<Rightarrow> None
         | Some forecast \<Rightarrow>
             let forecast_tp = (if signal_type d = ''BUY'' then quantile (map yhat forecast) 0.75
                                else quantile (map yhat forecast) 0.25);
                 forecast_sl = (if signal_type d = ''BUY'' then Min (set (map yhat_lower forecast))
                                else Max (set (map yhat_upper forecast)))
             in if signal_type d = ''BUY'' then
                  Some (d\<lparr>sl := Some (min forecast_sl (min (fst support_zone) (current_price * 0.98))),
                          tp := Some (max forecast_tp (max (snd resistance_zone) (current_price * 1.02)))\<rparr>)
                else
                  Some (d\<lparr>sl := Some (max forecast_sl (max (snd resistance_zone) (current_price * 1.02))),
                          tp := Some (min forecast_tp (min (fst support_zone) (current_price * 0.98)))\<rparr>))
      else Some d)"

text \<open>
  Risk-reward ratio adjustment. \<open>None\<close>: arithmetic on a level that is still
  \<open>None\<close> raises.
\<close>

definition risk_reward_adjustment :: "real \<Rightarrow> decision \<Rightarrow> decision option" where
  "risk_reward_adjustment current_price d =
     (if signal_type d \<noteq> ''NO SIGNAL'' then
        (case (sl d, tp d) of
           (Some s, Some t) \<Rightarrow>
             let risk = \<bar>current_price - s\<bar>; reward = \<bar>t - current_price\<bar> in
             if risk > 0 \<and> reward / risk < 1.5 then
               (if signal_type d = ''BUY'' then Some (d\<lparr>tp := Some (current_price + risk * 1.5)\<rparr>)
                else Some (d\<lparr>tp := Some (current_price - risk * 1.5)\<rparr>))
             else Some d
         | _ \<Rightarrow> None)
      else Some d)"

record scenarios =
  bullish_signal :: string
  bearish_signal :: string
  bull_tp :: pyval
  bull_sl :: pyval
  bear_tp :: pyval
  bear_sl :: pyval

text \<open>
  Breakout scenario simulation. The two modified copies of the frame are read by the
  indicator library only; its values on them are \<open>rsi_bull\<close>, \<open>stoch_bull\<close>,
  \<open>rsi_bear\<close> and \<open>stoch_bear\<close>.
\<close>

definition breakout_simulation :: "ta_lib \<Rightarrow> candle list \<Rightarrow> zone \<times> zone \<Rightarrow> real \<Rightarrow> scenarios option" where
  "breakout_simulation L df zones current_price =
     (let support_zone = fst zones; resistance_zone = snd zones;
          bullish = (if np_gt (rsi_bull L) (Fin 52) \<and> np_gt (stoch_bull L) (Fin 45)
                     then ''BUY'' else ''NO SIGNAL'');
          bearish = (if np_lt (rsi_bear L) (Fin 48) \<and> np_lt (stoch_bear L) (Fin 55)
                     then ''SELL'' else ''NO SIGNAL'');
          sc = \<lparr>bullish_signal = bullish, bearish_signal = bearish,
                bull_tp = (if bullish = ''BUY'' then num (snd resistance_zone * 1.03) else lit ''N/A''),
                bull_sl = (if bullish = ''BUY'' then num (current_price * 0.98) else lit ''N/A''),
                bear_tp = (if bearish = ''SELL'' then num (fst support_zone * 0.97) else lit ''N/A''),
                bear_sl = (if bearish = ''SELL'' then num (current_price * 1.02) else lit ''N/A'')\<rparr>
      in
      if bullish = ''BUY'' \<or> bearish = ''SELL'' then
        (case forecast_prices df 30 of
           None \<Rightarrow> Some sc
         | Some [] \<Rightarrow> None
         | Some forecast \<Rightarrow>
             Some (sc\<lparr>bull_tp := (if bullish = ''BUY''
                                   then num (max (quantile (map yhat forecast) 0.75)
                                                 (snd resistance_zone * 1.03))
                                   else bull_tp sc),
                      bear_tp := (if bearish = ''SELL''
                                   then num (min (quantile (map yhat forecast) 0.25)
                                                 (fst support_zone * 0.97))
                                   else bear_tp sc)\<rparr>))
      else Some sc)"

record analysis =
  a_zones :: "zone \<times> zone"
  a_price :: real
  a_conditions :: conditions
  a_derived :: decision
  a_refined :: decision
  a_final :: decision
  a_breakout :: "scenarios option"

text \<open>
  The body of \<open>run_strategy\<close> after its guards, up to the breakout simulation: zones,
  current price, conditions, the decision with its derived levels, the decision after
  forecast integration, and the decision after the risk-reward adjustment.
\<close>

definition analyse :: "ta_lib \<Rightarrow> candle list \<Rightarrow> emas \<Rightarrow> npfloat \<Rightarrow> analysis option" where
  "analyse L df e basis_kc =
     do {
       zones \<leftarrow> detect_support_resistance_zones df;
       last_close \<leftarrow> iloc_neg (map Close df) 1;
       let current_price = (case fetch_current_price of
                              None \<Rightarrow> last_close
                            | Some p \<Rightarrow> if p \<noteq> 0 then p else last_close);
       close_20 \<leftarrow> iloc_neg (map Close df) 20;
       let c = signal_conditions L e basis_kc current_price close_20;
       let d0 = decide c zones current_price;
       d1 \<leftarrow> forecast_integration df zones current_price d0;
       d2 \<leftarrow> risk_reward_adjustment current_price d1;
       b \<leftarrow> (if signal_type d2 = ''NO SIGNAL''
              then map_option Some (breakout_simulation L df zones current_price)
              else Some None);
       Some \<lparr>a_zones = zones, a_price = current_price, a_conditions = c,
             a_derived = d0, a_refined = d1, a_final = d2, a_breakout = b\<rparr>
     }"

section \<open>Report\<close>

definition confidence_status :: "real \<Rightarrow> piece list" where
  "confidence_status conf =
     [Dec 1 (Fin conf), Txt ''% ('',
      Txt (if conf \<ge> 70 then ''High'' else if conf \<ge> 50 then ''Medium'' else ''Low''),
      Txt '')'']"

text \<open>
  One scenario of the \<open>breakout\<close> entry. Every field is guarded in the source by
  \<open>signal_type == "NO SIGNAL"\<close>, which holds exactly when the simulation ran: the
  scenarios are \<open>Some\<close> then, and every field is \<open>None\<close> otherwise.
\<close>

definition scenario_object :: "(npfloat \<times> npfloat \<times> string \<times> pyval \<times> pyval) option \<Rightarrow> pyval" where
  "scenario_object sc =
     (case sc of
        Some (rsi_v, stoch_v, signal_v, tp_v, sl_v) \<Rightarrow>
          PDict [(''rsi'', PStr (format_strategy_number rsi_v)),
                 (''stochastic'', PStr (format_strategy_number stoch_v)),
                 (''signal'', lit signal_v),
                 (''tp'', PStr (format_price tp_v)),
                 (''sl'', PStr (format_price sl_v))]
      | None \<Rightarrow>
          PDict [(''rsi'', PNone), (''stochastic'', PNone), (''signal'', PNone),
                 (''tp'', PNone), (''sl'', PNone)])"

text \<open>\<open>float(x) if x is not None else 0\<close>.\<close>

definition level_value :: "real option \<Rightarrow> pyval" where
  "level_value x = (case x of Some v \<Rightarrow> num v | None \<Rightarrow> num 0)"

definition snapshot_object :: "ta_lib \<Rightarrow> npfloat \<Rightarrow> npfloat \<Rightarrow> analysis \<Rightarrow> pyval" where
  "snapshot_object L upper_kc lower_kc a =
     (let c = a_conditions a; d = a_final a; current_price = a_price a;
          support_zone = fst (a_zones a); resistance_zone = snd (a_zones a);
          rsi_trend = (if bullish_rsi c then ''Bullish Trend'' else ''Bearish Trend'');
          stoch_trend = (if bullish_stoch c then ''Bullish Trend'' else ''Bearish Trend'');
          ema_trend = (if bullish_ema c then ''EMA100 Higher (Bullish)''
                       else if bearish_ema c then ''EMA200 Higher (Bearish)''
                       else ''EMAs Neutral'');
          keltner_status =
            [Txt (if np_gt (Fin current_price) upper_kc then ''Above Upper''
                  else if np_lt (Fin current_price) lower_kc then ''Below Lower''
                  else ''Within''),
             Txt '' range: Upper ''] @ format_price (PNum upper_kc)
            @ [Txt '', Lower ''] @ format_price (PNum lower_kc);
          momentum_status =
            [Txt ''20-Period: '', SDec 2 (price_momentum c), Txt ''% ('',
             Txt (if bullish_momentum c then ''Bullish''
                  else if bearish_momentum c then ''Bearish'' else ''Neutral''),
             Txt '')''];
          support_zone_str = format_price (num (fst support_zone)) @ [Txt '' -> '']
                             @ format_price (num (snd support_zone));
          resistance_zone_str = format_price (num (fst resistance_zone)) @ [Txt '' -> '']
                                @ format_price (num (snd resistance_zone))
      in PDict
        [(''status'', lit (signal_type d)),
         (''current_price'', num current_price),
         (''tp'', level_value (tp d)),
         (''sl'', level_value (sl d)),
         (''indicators'', PDict
            [(''rsi'', PStr (format_strategy_number (rsi_last L) @ [Txt '' -> '', Txt rsi_trend])),
             (''stochastic'', PStr ([Txt ''%K ''] @ format_strategy_number (stoch_k_last L)
                                   @ [Txt '', %D ''] @ format_strategy_number (stoch_d_last L)
                                   @ [Txt '' -> '', Txt stoch_trend])),
             (''ema'', lit ema_trend),
             (''keltner'', PStr keltner_status),
             (''momentum'', PStr momentum_status),
             (''confidence'', PStr (confidence_status (confidence d)))]),
         (''support_zone'', PStr support_zone_str),
         (''resistance_zone'', PStr resistance_zone_str),
         (''breakout'', PDict
            [(''bullish'', scenario_object
                (map_option (\<lambda>sc. (rsi_bull L, stoch_bull L, bullish_signal sc, bull_tp sc, bull_sl sc))
                   (a_breakout a))),
             (''bearish'', scenario_object
                (map_option (\<lambda>sc. (rsi_bear L, stoch_bear L, bearish_signal sc, bear_tp sc, bear_sl sc))
                   (a_breakout a)))])])"

definition failure :: "string \<Rightarrow> dict \<times> bool" where
  "failure msg =
     ([(''signal'', lit ''NO SIGNAL''), (''tp'', num 0), (''sl'', num 0),
       (''chart_base64'', lit []), (''snapshot'', lit msg)], False)"

text \<open>
  \<open>run_strategy(df)\<close>: the result dict and the success flag. The outer \<open>None\<close> is an
  exception that leaves the function. The message assembled for delivery is not part of
  the result and is left out; the name of the frame is used for logging and for the chart
  file only.
\<close>

definition run_strategy :: "ta_lib \<Rightarrow> candle list option \<Rightarrow> (dict \<times> bool) option" where
  "run_strategy L dfo =
     (case dfo of
        None \<Rightarrow> Some (failure ''Error: Failed to fetch candle data'')
      | Some df \<Rightarrow>
          if length df < CANDLE_LIMIT then Some (failure ''Error: Failed to fetch candle data'')
          else
            do {
              e \<leftarrow> calculate_ema L df;
              if np_eq (ema100 e) (Fin 0) \<or> np_eq (ema200 e) (Fin 0)
              then Some (failure ''Error: Invalid EMA data'')
              else
                (case calculate_keltner_channels L df of
                   (upper_kc, basis_kc, lower_kc) \<Rightarrow>
                     if np_eq upper_kc (Fin 0) \<or> np_eq lower_kc (Fin 0)
                     then Some (failure ''Error: Invalid Keltner data'')
                     else
                       do {
                         a \<leftarrow> analyse L df e basis_kc;
                         Some ([(''signal'', lit (signal_type (a_final a))),
                                (''tp'', level_value (tp (a_final a))),
                                (''sl'', level_value (sl (a_final a))),
                                (''chart_base64'', lit (chart_base64 L)),
                                (''snapshot'', snapshot_object L upper_kc lower_kc a)], True)
                       })
            })"

section \<open>Command-line wrapper\<close>

text \<open>\<open>int(x)\<close> on a finite number truncates towards zero; \<open>None\<close> is an exception.\<close>

fun py_int :: "pyval \<Rightarrow> int option" where
  "py_int (PNum (Fin x)) = Some (if 0 \<le> x then \<lfloor>x\<rfloor> else \<lceil>x\<rceil>)"
| "py_int _ = None"

text \<open>The error document of \<open>main\<close> for a frame that is missing or empty.\<close>

definition fetch_failure :: "string \<Rightarrow> string \<Rightarrow> string \<Rightarrow> dict" where
  "fetch_failure pair timeframe coin_id =
     [(''error'', PStr [Txt ''Unable to fetch data for '', Txt pair]),
      (''pair'', lit pair), (''timeframe'', lit timeframe),
      (''message'', PStr [Txt ''Cryptocurrency not found. Tried ID: '', Txt coin_id,
                          Txt ''. Please check the symbol (e.g., PEPEUSDT, BTCUSDT, SHIBUSDT)''])]"

text \<open>
  \<open>main\<close> from the fetched frame on: \<open>Inl\<close> is an error document with exit status 1,
  \<open>Inr\<close> the response printed on success. The timestamp, the live price fields and the
  values parsed back from the rendered indicator strings are left out of the response; the
  text of a caught exception is not modelled.
\<close>

definition main :: "string \<Rightarrow> string \<Rightarrow> string \<Rightarrow> ta_lib \<Rightarrow> candle list option \<Rightarrow> dict + dict" where
  "main pair timeframe coin_id L crypto_data =
     (case crypto_data of
        None \<Rightarrow> Inl (fetch_failure pair timeframe coin_id)
      | Some df \<Rightarrow>
          if df = [] then Inl (fetch_failure pair timeframe coin_id)
          else
            (case run_strategy L (Some df) of
               None \<Rightarrow> Inl [(''error'', PStr [Txt ''Analysis failed: ''])]
             | Some (strategy_result, success) \<Rightarrow>
                 if \<not> success then
                   Inl [(''error'', lit ''Strategy analysis failed''),
                        (''pair'', lit pair), (''timeframe'', lit timeframe),
                        (''message'', dict_get strategy_result ''snapshot'' (lit ''Unknown error''))]
                 else
                   (case do {
                           signal_v \<leftarrow> map_of strategy_result ''signal'';
                           conf \<leftarrow> py_int (dict_get strategy_result ''confidence'' (num 50));
                           volume \<leftarrow> py_int (num (Volume (last df)));
                           snapshot \<leftarrow> map_of strategy_result ''snapshot'';
                           tp_v \<leftarrow> map_of strategy_result ''tp'';
                           sl_v \<leftarrow> map_of strategy_result ''sl'';
                           support \<leftarrow> item snapshot ''support_zone'';
                           resistance \<leftarrow> item snapshot ''resistance_zone'';
                           indicators \<leftarrow> item snapshot ''indicators'';
                           ema_v \<leftarrow> item indicators ''ema'';
                           keltner_v \<leftarrow> item indicators ''keltner'';
                           momentum_v \<leftarrow> item indicators ''momentum'';
                           confidence_v \<leftarrow> item indicators ''confidence'';
                           Some [(''pair'', lit pair),
                                 (''timeframe'', lit timeframe),
                                 (''signal'', signal_v),
                                 (''confidence'', num (real_of_int conf)),
                                 (''reason'', PStr [Txt ''Advanced strategy analysis with '',
                                                    Dec 0 (Fin (real (length df))),
                                                    Txt '' data points'']),
                                 (''volume'', num (real_of_int volume)),
                                 (''data_source'', lit ''CoinGecko API + Advanced Strategy''),
                                 (''coin_id'', lit coin_id),
                                 (''strategy_details'', PDict
                                    [(''tp'', tp_v), (''sl'', sl_v),
                                     (''support_zone'', support),
                                     (''resistance_zone'', resistance),
                                     (''ema_trend'', ema_v),
                                     (''keltner_status'', keltner_v),
                                     (''momentum'', momentum_v),
                                     (''confidence_level'', confidence_v)])]
                         } of
                      None \<Rightarrow> Inl [(''error'', PStr [Txt ''Analysis failed: ''])]
                    | Some response \<Rightarrow> Inr response)))"

section \<open>Reading a result\<close>

text \<open>\<open>v[k1][k2]...\<close> on nested dicts.\<close>

fun path :: "pyval \<Rightarrow> string list \<Rightarrow> pyval option" where
  "path v [] = Some v"
| "path v (k # ks) = (case item v k of None \<Rightarrow> None | Some w \<Rightarrow> path w ks)"

definition result_path :: "(dict \<times> bool) option \<Rightarrow> string list \<Rightarrow> pyval option" where
  "result_path r ks = (case r of Some (d, ok) \<Rightarrow> path (PDict d) ks | None \<Rightarrow> None)"

text \<open>The call returned, with the success flag set.\<close>

definition succeeded :: "(dict \<times> bool) option \<Rightarrow> bool" where
  "succeeded r = (case r of Some (d, ok) \<Rightarrow> ok | None \<Rightarrow> False)"

text \<open>
  The failure result of the guard stage: the call returned with the flag unset, the signal
  is \<open>NO SIGNAL\<close>, both levels are the number 0 and the snapshot is a message, not a
  report.
\<close>

definition failure_result :: "(dict \<times> bool) option \<Rightarrow> bool" where
  "failure_result r =
     (case r of
        None \<Rightarrow> False
      | Some (d, ok) \<Rightarrow>
          \<not> ok \<and> map_of d ''signal'' = Some (lit ''NO SIGNAL'')
          \<and> map_of d ''tp'' = Some (num 0) \<and> map_of d ''sl'' = Some (num 0)
          \<and> (case map_of d ''snapshot'' of Some (PStr [Txt msg]) \<Rightarrow> True | _ \<Rightarrow> False))"

text \<open>The Keltner basis that \<open>run_strategy\<close> passes on.\<close>

definition basis_of :: "ta_lib \<Rightarrow> candle list \<Rightarrow> npfloat" where
  "basis_of L df = fst (snd (calculate_keltner_channels L df))"

text \<open>The analysis that \<open>run_strategy\<close> performs on a frame that passes its guards.\<close>

definition analysis_of :: "ta_lib \<Rightarrow> candle list \<Rightarrow> analysis option" where
  "analysis_of L df = do { e \<leftarrow> calculate_ema L df; analyse L df e (basis_of L df) }"

text \<open>The signal conditions that \<open>run_strategy\<close> computes on a frame.\<close>

definition conditions_of :: "ta_lib \<Rightarrow> candle list \<Rightarrow> conditions option" where
  "conditions_of L df =
     do {
       e \<leftarrow> calculate_ema L df;
       last_close \<leftarrow> iloc_neg (map Close df) 1;
       close_20 \<leftarrow> iloc_neg (map Close df) 20;
       Some (signal_conditions L e (basis_of L df) last_close close_20)
     }"

section \<open>The decision ladder of the specification\<close>

text \<open>An ordered list of guards, evaluated top to bottom; the first that holds wins.\<close>

fun first_match :: "(bool \<times> string) list \<Rightarrow> string \<Rightarrow> string" where
  "first_match [] dflt = dflt"
| "first_match ((g, s) # rest) dflt = (if g then s else first_match rest dflt)"

definition decision_ladder :: "ta_lib \<Rightarrow> conditions \<Rightarrow> string" where
  "decision_ladder L c =
     first_match
       [(bullish_price c \<and> bullish_ema c \<and> bullish_momentum c, ''BUY''),
        (bearish_price c \<and> bearish_ema c \<and> bearish_momentum c, ''SELL''),
        (bullish_points c \<ge> 2 \<and> np_lt (rsi_last L) (Fin 70) \<and> np_lt (stoch_k_last L) (Fin 80),
         ''BUY''),
        (bearish_points c \<ge> 2 \<and> np_gt (rsi_last L) (Fin 30) \<and> np_gt (stoch_k_last L) (Fin 20),
         ''SELL'')]
       ''NO SIGNAL''"

text \<open>The strong conditions (steps 4a and 4b).\<close>

definition strong_condition :: "conditions \<Rightarrow> bool" where
  "strong_condition c =
     ((bullish_price c \<and> bullish_ema c \<and> bullish_momentum c)
      \<or> (bearish_price c \<and> bearish_ema c \<and> bearish_momentum c))"

text \<open>A scenario object whose fields are all \<open>None\<close>.\<close>

definition empty_scenario :: pyval where
  "empty_scenario =
     PDict [(''rsi'', PNone), (''stochastic'', PNone), (''signal'', PNone),
            (''tp'', PNone), (''sl'', PNone)]"

section \<open>Example inputs\<close>

text \<open>
  A series that rose from 90 to 100 fifteen candles ago, with bullish library values: a
  strong BUY.
\<close>

definition L_bull :: ta_lib where
  "L_bull = \<lparr>rsi_last = Fin 60, rsi_prev = Fin 55, stoch_k_last = Fin 70, stoch_k_prev = Fin 60,
             stoch_d_last = Fin 65, ema100_raw = Fin 95, ema200_raw = Fin 92,
             kc_hband = Fin 98, kc_mband = Fin 93, kc_lband = Fin 88,
             rsi_bull = Fin 60, stoch_bull = Fin 50, rsi_bear = Fin 40, stoch_bear = Fin 50,
             chart_base64 = []\<rparr>"

definition df_rising :: "candle list" where
  "df_rising =
     replicate 35 \<lparr>Open = 90, High = 91, Low = 60, Close = 90, Volume = 1000000\<rparr>
     @ replicate 15 \<lparr>Open = 100, High = 101, Low = 99, Close = 100, Volume = 1000000\<rparr>"

text \<open>
  A series that fell from 100 to 90 fifteen candles ago, with bearish library values: a
  strong SELL.
\<close>

definition L_bear :: ta_lib where
  "L_bear = \<lparr>rsi_last = Fin 40, rsi_prev = Fin 45, stoch_k_last = Fin 30, stoch_k_prev = Fin 40,
             stoch_d_last = Fin 35, ema100_raw = Fin 85, ema200_raw = Fin 92,
             kc_hband = Fin 100, kc_mband = Fin 95, kc_lband = Fin 91,
             rsi_bull = Fin 60, stoch_bull = Fin 50, rsi_bear = Fin 40, stoch_bear = Fin 50,
             chart_base64 = []\<rparr>"

definition df_falling :: "candle list" where
  "df_falling =
     replicate 35 \<lparr>Open = 100, High = 130, Low = 99, Close = 100, Volume = 1000000\<rparr>
     @ replicate 15 \<lparr>Open = 90, High = 91, Low = 89, Close = 90, Volume = 1000000\<rparr>"

text \<open>A flat series with neutral library values and an undefined \<open>%K\<close>: no signal.\<close>

definition L_flat :: ta_lib where
  "L_flat = \<lparr>rsi_last = Fin 50, rsi_prev = Fin 50, stoch_k_last = NaN, stoch_k_prev = NaN,
             stoch_d_last = NaN, ema100_raw = Fin 90, ema200_raw = Fin 90,
             kc_hband = Fin 92, kc_mband = Fin 90, kc_lband = Fin 88,
             rsi_bull = Fin 60, stoch_bull = Fin 50, rsi_bear = Fin 40, stoch_bear = Fin 50,
             chart_base64 = []\<rparr>"

definition df_flat :: "candle list" where
  "df_flat = replicate 50 \<lparr>Open = 90, High = 91, Low = 89, Close = 90, Volume = 1000000\<rparr>"

text \<open>The rising series with \<open>%K\<close> resting at 50.\<close>

definition L_mid :: ta_lib where
  "L_mid = L_bull\<lparr>stoch_k_last := Fin 50, stoch_k_prev := Fin 50\<rparr>"

text \<open>A series of 50 candles at price zero, and a library that returns NaN throughout.\<close>

definition L_nan :: ta_lib where
  "L_nan = \<lparr>rsi_last = NaN, rsi_prev = NaN, stoch_k_last = NaN, stoch_k_prev = NaN,
            stoch_d_last = NaN, ema100_raw = NaN, ema200_raw = NaN,
            kc_hband = NaN, kc_mband = NaN, kc_lband = NaN,
            rsi_bull = NaN, stoch_bull = NaN, rsi_bear = NaN, stoch_bear = NaN,
            chart_base64 = []\<rparr>"

definition df_zero :: "candle list" where
  "df_zero = replicate 50 \<lparr>Open = 0, High = 0, Low = 0, Close = 0, Volume = 0\<rparr>"

text \<open>Ten candles, closing 1, 2, ..., 10.\<close>

definition df_ten :: "candle list" where
  "df_ten = map (\<lambda>i. \<lparr>Open = real i, High = real i + 1, Low = real i, Close = real i + 1,
                       Volume = 1000000\<rparr>) [0..<10]"

section \<open>Basic facts\<close>

lemma iloc_neg_last: "xs \<noteq> [] \<Longrightarrow> iloc_neg xs (Suc 0) = Some (last xs)"
  by (cases xs rule: rev_cases) (simp_all add: iloc_neg_def nth_append)

lemma tail_closes:
  assumes "10 \<le> length df"
  shows "last (tail 10 (map Close df)) = Close (last df)"
    and "hd (tail 10 (map Close df)) = Close (df ! (length df - 10))"
    and "length (tail 10 (map Close df)) = 10"
proof -
  from assms have ne: "df \<noteq> []" by auto
  show "last (tail 10 (map Close df)) = Close (last df)"
    using assms ne by (simp add: tail_def last_drop last_map)
  show "hd (tail 10 (map Close df)) = Close (df ! (length df - 10))"
    using assms by (simp add: tail_def hd_drop_conv_nth)
  show "length (tail 10 (map Close df)) = 10"
    using assms by (simp add: tail_def)
qed

lemma forecast_prices_rows:
  assumes "10 \<le> length df"
  shows "forecast_prices df periods =
           Some (map (\<lambda>i. \<lparr>yhat = Close (last df) + (Close (last df) - Close (df ! (length df - 10))) / 10 * (real i + 1),
                           yhat_lower = (Close (last df) + (Close (last df) - Close (df ! (length df - 10))) / 10 * (real i + 1)) * 0.95,
                           yhat_upper = (Close (last df) + (Close (last df) - Close (df ! (length df - 10))) / 10 * (real i + 1)) * 1.05\<rparr>)
                     [0..<nat periods])"
  using assms by (simp add: forecast_prices_def Let_def tail_closes)

lemma forecast_prices_30_nonempty:
  assumes "10 \<le> length df"
  shows "\<exists>r rs. forecast_prices df 30 = Some (r # rs)"
proof -
  have "[0..<nat 30] = 0 # [1..<30]" by (simp add: upt_conv_Cons)
  then show ?thesis unfolding forecast_prices_rows [OF assms] by simp
qed

subsection \<open>The zone detector aggregates non-empty lists\<close>

lemma dropna_append: "dropna (xs @ ys) = dropna xs @ dropna ys"
  by (induction xs) (auto simp: dropna_def List.map_filter_simps split: option.splits)

lemma tail_snoc: "0 < n \<Longrightarrow> tail n (xs @ [x]) = tail (n - 1) xs @ [x]"
  by (cases n) (auto simp: tail_def)

lemma rolling_snoc:
  assumes "0 < w" "w \<le> length xs"
  shows "\<exists>ys win. rolling w xs = ys @ [Some win] \<and> win \<noteq> []"
proof -
  from assms obtain n where n: "length xs = Suc n" by (cases "length xs") auto
  have "rolling w xs = map (\<lambda>i. if i + 1 < w then None else Some (take w (drop (i + 1 - w) xs))) [0..<n]
          @ [Some (take w (drop (Suc n - w) xs))]"
    using assms n by (simp add: rolling_def)
  moreover have "take w (drop (Suc n - w) xs) \<noteq> []"
    using assms n by auto
  ultimately show ?thesis by blast
qed

lemma recent_nonempty:
  assumes "20 \<le> length xs"
  shows "dropna (tail 20 (map (map_option f) (rolling 20 xs))) \<noteq> []"
proof -
  from rolling_snoc [of 20 xs] assms obtain ys win where "rolling 20 xs = ys @ [Some win]"
    by auto
  then show ?thesis
    by (simp add: tail_snoc dropna_append) (simp add: dropna_def List.map_filter_simps)
qed

subsection \<open>The stages\<close>

lemma zones_Some: "20 \<le> length df \<Longrightarrow> \<exists>z. detect_support_resistance_zones df = Some z"
  by (simp add: detect_support_resistance_zones_def Let_def)

lemma decide_signal_type:
  "signal_type (decide c z p) = ''BUY'' \<or> signal_type (decide c z p) = ''SELL''
   \<or> signal_type (decide c z p) = ''NO SIGNAL''"
  by (simp add: decide_def Let_def)

lemma conditions_overbought:
  "not_overbought (signal_conditions L e b p c20)
     = (np_lt (rsi_last L) (Fin 70) \<and> np_lt (stoch_k_last L) (Fin 80))"
  "not_oversold (signal_conditions L e b p c20)
     = (np_gt (rsi_last L) (Fin 30) \<and> np_gt (stoch_k_last L) (Fin 20))"
  by (simp_all add: signal_conditions_def Let_def)

lemma decide_is_ladder:
  "signal_type (decide (signal_conditions L e b p c20) z p)
     = decision_ladder L (signal_conditions L e b p c20)"
  by (simp add: decide_def decision_ladder_def Let_def conditions_overbought)

lemma decide_none:
  "signal_type (decide c z p) = ''NO SIGNAL'' \<Longrightarrow> sl (decide c z p) = None \<and> tp (decide c z p) = None"
  by (auto simp: decide_def Let_def split: if_splits)



lemma decide_confidence:
  "confidence (decide c z p) =
     (if strong_condition c then max 70 (real (max (bullish_points c) (bearish_points c)) / 5 * 100)
      else real (max (bullish_points c) (bearish_points c)) / 5 * 100)"
  by (simp add: decide_def Let_def strong_condition_def)

lemma forecast_integration_none:
  "signal_type d = ''NO SIGNAL'' \<Longrightarrow> forecast_integration df z p d = Some d"
  by (simp add: forecast_integration_def Let_def)

lemma forecast_integration_buy:
  assumes "10 \<le> length df" "signal_type d = ''BUY''"
  shows "\<exists>rows. forecast_prices df 30 = Some rows \<and> rows \<noteq> [] \<and>
           forecast_integration df z p d =
             Some (d\<lparr>sl := Some (min (Min (set (map yhat_lower rows))) (min (fst (fst z)) (p * 0.98))),
                     tp := Some (max (quantile (map yhat rows) 0.75) (max (snd (snd z)) (p * 1.02)))\<rparr>)"
proof -
  from forecast_prices_30_nonempty [OF assms(1)]
  obtain r rs where "forecast_prices df 30 = Some (r # rs)" by blast
  then show ?thesis using assms(2)
    by (simp add: forecast_integration_def Let_def)
qed

lemma forecast_integration_sell:
  assumes "10 \<le> length df" "signal_type d = ''SELL''"
  shows "\<exists>rows. forecast_prices df 30 = Some rows \<and> rows \<noteq> [] \<and>
           forecast_integration df z p d =
             Some (d\<lparr>sl := Some (max (Max (set (map yhat_upper rows))) (max (snd (snd z)) (p * 1.02))),
                     tp := Some (min (quantile (map yhat rows) 0.25) (min (fst (fst z)) (p * 0.98)))\<rparr>)"
proof -
  from forecast_prices_30_nonempty [OF assms(1)]
  obtain r rs where "forecast_prices df 30 = Some (r # rs)" by blast
  then show ?thesis using assms(2)
    by (simp add: forecast_integration_def Let_def)
qed

lemma forecast_integration_keeps:
  assumes "forecast_integration df z p d = Some d'"
  shows "signal_type d' = signal_type d" "confidence d' = confidence d"
  using assms
  by (auto simp: forecast_integration_def Let_def split: if_splits option.splits list.splits)

lemma risk_reward_none:
  "signal_type d = ''NO SIGNAL'' \<Longrightarrow> risk_reward_adjustment p d = Some d"
  by (simp add: risk_reward_adjustment_def)

lemma risk_reward_levels:
  assumes "sl d = Some s" "tp d = Some t"
  shows "\<exists>t'. risk_reward_adjustment p d = Some (d\<lparr>tp := Some t'\<rparr>)
           \<and> (\<bar>p - s\<bar> > 0 \<and> \<bar>t - p\<bar> / \<bar>p - s\<bar> < 1.5 \<and> signal_type d = ''BUY'' \<longrightarrow> t' = p + \<bar>p - s\<bar> * 1.5)
           \<and> (\<bar>p - s\<bar> > 0 \<and> \<bar>t - p\<bar> / \<bar>p - s\<bar> < 1.5 \<and> signal_type d = ''SELL'' \<longrightarrow> t' = p - \<bar>p - s\<bar> * 1.5)
           \<and> (\<not> (\<bar>p - s\<bar> > 0 \<and> \<bar>t - p\<bar> / \<bar>p - s\<bar> < 1.5) \<or> signal_type d = ''NO SIGNAL'' \<longrightarrow> t' = t)"
  using assms by (auto simp: risk_reward_adjustment_def Let_def)

lemma breakout_simulation_Some:
  assumes "10 \<le> length df"
  shows "\<exists>sc. breakout_simulation L df z p = Some sc
     \<and> bullish_signal sc = (if np_gt (rsi_bull L) (Fin 52) \<and> np_gt (stoch_bull L) (Fin 45) then ''BUY'' else ''NO SIGNAL'')
     \<and> bearish_signal sc = (if np_lt (rsi_bear L) (Fin 48) \<and> np_lt (stoch_bear L) (Fin 55) then ''SELL'' else ''NO SIGNAL'')"
proof -
  from forecast_prices_30_nonempty [OF assms]
  obtain r rs where "forecast_prices df 30 = Some (r # rs)" by blast
  then show ?thesis
    by (simp add: breakout_simulation_def Let_def)
qed


subsection \<open>The analysis as a whole\<close>

lemma closes_Some:
  assumes "20 \<le> length df"
  shows "iloc_neg (map Close df) (Suc 0) = Some (Close (last df))"
    and "iloc_neg (map Close df) 20 = Some (Close (df ! (length df - 20)))"
proof -
  from assms have ne: "df \<noteq> []" by auto
  then show "iloc_neg (map Close df) (Suc 0) = Some (Close (last df))"
    by (simp add: iloc_neg_last last_map)
  from assms show "iloc_neg (map Close df) 20 = Some (Close (df ! (length df - 20)))"
    by (simp add: iloc_neg_def)
qed

lemma calculate_ema_Some:
  assumes "df \<noteq> []"
  shows "\<exists>e. calculate_ema L df = Some e"
  using assms by (simp add: calculate_ema_def iloc_neg_last Let_def)

lemma refined_exists:
  assumes "10 \<le> length df"
  shows "\<exists>d1. forecast_integration df z p (decide c z p) = Some d1
           \<and> signal_type d1 = signal_type (decide c z p)
           \<and> (signal_type d1 \<noteq> ''NO SIGNAL'' \<longrightarrow> (\<exists>s t. sl d1 = Some s \<and> tp d1 = Some t))"
proof -
  consider (buy) "signal_type (decide c z p) = ''BUY''"
    | (sell) "signal_type (decide c z p) = ''SELL''"
    | (none) "signal_type (decide c z p) = ''NO SIGNAL''"
    using decide_signal_type by blast
  then show ?thesis
  proof cases
    case buy
    from forecast_integration_buy [OF assms buy, of z p] show ?thesis
      using buy by auto
  next
    case sell
    from forecast_integration_sell [OF assms sell, of z p] show ?thesis
      using sell by auto
  next
    case none
    then show ?thesis by (simp add: forecast_integration_none)
  qed
qed

lemma final_exists:
  assumes "signal_type d1 \<noteq> ''NO SIGNAL'' \<longrightarrow> (\<exists>s t. sl d1 = Some s \<and> tp d1 = Some t)"
  shows "\<exists>d2. risk_reward_adjustment p d1 = Some d2 \<and> signal_type d2 = signal_type d1
           \<and> sl d2 = sl d1 \<and> confidence d2 = confidence d1"
proof (cases "signal_type d1 = ''NO SIGNAL''")
  case True
  then show ?thesis by (simp add: risk_reward_none)
next
  case False
  with assms obtain s t where "sl d1 = Some s" "tp d1 = Some t" by blast
  from risk_reward_levels [OF this, of p] show ?thesis by auto
qed

lemma analyse_facts:
  assumes "20 \<le> length df"
  shows "\<exists>a. analyse L df e b = Some a
     \<and> detect_support_resistance_zones df = Some (a_zones a)
     \<and> a_price a = Close (last df)
     \<and> a_conditions a = signal_conditions L e b (Close (last df)) (Close (df ! (length df - 20)))
     \<and> a_derived a = decide (a_conditions a) (a_zones a) (a_price a)
     \<and> forecast_integration df (a_zones a) (a_price a) (a_derived a) = Some (a_refined a)
     \<and> risk_reward_adjustment (a_price a) (a_refined a) = Some (a_final a)
     \<and> a_breakout a = (if signal_type (a_final a) = ''NO SIGNAL''
                        then breakout_simulation L df (a_zones a) (a_price a) else None)"
proof -
  from assms have ten: "10 \<le> length df" by simp
  from zones_Some [OF assms] obtain z where z: "detect_support_resistance_zones df = Some z"
    by blast
  define p where "p = Close (last df)"
  define c where "c = signal_conditions L e b p (Close (df ! (length df - 20)))"
  from refined_exists [OF ten, of z p c]
  obtain d1 where d1: "forecast_integration df z p (decide c z p) = Some d1"
    and lv: "signal_type d1 \<noteq> ''NO SIGNAL'' \<longrightarrow> (\<exists>s t. sl d1 = Some s \<and> tp d1 = Some t)"
    by blast
  from final_exists [OF lv, of p]
  obtain d2 where d2: "risk_reward_adjustment p d1 = Some d2" by blast
  from breakout_simulation_Some [OF ten, of L z p]
  obtain sc where sc: "breakout_simulation L df z p = Some sc" by blast
  have "analyse L df e b =
          Some \<lparr>a_zones = z, a_price = p, a_conditions = c, a_derived = decide c z p,
                a_refined = d1, a_final = d2,
                a_breakout = (if signal_type d2 = ''NO SIGNAL'' then Some sc else None)\<rparr>"
    using z d1 d2 sc
    by (simp add: analyse_def closes_Some [OF assms] fetch_current_price_def p_def [symmetric]
        c_def [symmetric])
  then show ?thesis
    using z d1 d2 sc by (simp add: p_def c_def)
qed

subsection \<open>The result of a run\<close>

lemma run_strategy_short:
  "dfo = None \<or> (\<exists>df. dfo = Some df \<and> length df < CANDLE_LIMIT)
     \<Longrightarrow> run_strategy L dfo = Some (failure ''Error: Failed to fetch candle data'')"
  by (auto simp: run_strategy_def)

lemma failure_result_failure: "failure_result (Some (failure msg))"
  by (simp add: failure_result_def failure_def)

lemma not_succeeded_failure: "\<not> succeeded (Some (failure msg))"
  by (simp add: succeeded_def failure_def)

lemma run_strategy_long:
  assumes "CANDLE_LIMIT \<le> length df" "calculate_ema L df = Some e"
    "calculate_keltner_channels L df = (u, b, l)"
  shows "run_strategy L (Some df) =
           (if np_eq (ema100 e) (Fin 0) \<or> np_eq (ema200 e) (Fin 0)
            then Some (failure ''Error: Invalid EMA data'')
            else if np_eq u (Fin 0) \<or> np_eq l (Fin 0)
            then Some (failure ''Error: Invalid Keltner data'')
            else (case analyse L df e b of
                    None \<Rightarrow> None
                  | Some a \<Rightarrow>
                      Some ([(''signal'', lit (signal_type (a_final a))),
                             (''tp'', level_value (tp (a_final a))),
                             (''sl'', level_value (sl (a_final a))),
                             (''chart_base64'', lit (chart_base64 L)),
                             (''snapshot'', snapshot_object L u l a)], True)))"
  using assms by (simp add: run_strategy_def split: option.splits)

lemma run_strategy_success:
  assumes "succeeded (run_strategy L dfo)"
  shows "\<exists>df e a. dfo = Some df \<and> CANDLE_LIMIT \<le> length df \<and> calculate_ema L df = Some e
           \<and> analysis_of L df = Some a \<and> analyse L df e (basis_of L df) = Some a
           \<and> run_strategy L dfo =
               Some ([(''signal'', lit (signal_type (a_final a))),
                      (''tp'', level_value (tp (a_final a))),
                      (''sl'', level_value (sl (a_final a))),
                      (''chart_base64'', lit (chart_base64 L)),
                      (''snapshot'', snapshot_object L (fst (calculate_keltner_channels L df))
                                       (snd (snd (calculate_keltner_channels L df))) a)], True)"
proof -
  have "\<not> (dfo = None \<or> (\<exists>df. dfo = Some df \<and> length df < CANDLE_LIMIT))"
  proof
    assume "dfo = None \<or> (\<exists>df. dfo = Some df \<and> length df < CANDLE_LIMIT)"
    from run_strategy_short [OF this, of L] assms show False
      by (simp add: not_succeeded_failure)
  qed
  then obtain df where df: "dfo = Some df" and len: "CANDLE_LIMIT \<le> length df"
    by (cases dfo) (auto simp: not_less)
  from len have l20: "20 \<le> length df" and ne: "df \<noteq> []" by (auto simp: CANDLE_LIMIT_def)
  from calculate_ema_Some [OF ne] obtain e where e: "calculate_ema L df = Some e" by blast
  obtain u b l where k: "calculate_keltner_channels L df = (u, b, l)"
    by (cases "calculate_keltner_channels L df") auto
  from analyse_facts [OF l20, of L e b] obtain a where a: "analyse L df e b = Some a" by blast
  have b: "basis_of L df = b" by (simp add: basis_of_def k)
  from assms show ?thesis
    unfolding df run_strategy_long [OF len e k]
    using a e len
    by (auto simp: not_succeeded_failure analysis_of_def b k split: if_splits)
qed

lemma run_strategy_returns: "\<exists>d ok. run_strategy L dfo = Some (d, ok)"
proof (cases "dfo = None \<or> (\<exists>df. dfo = Some df \<and> length df < CANDLE_LIMIT)")
  case True
  from run_strategy_short [OF this, of L] show ?thesis by (auto simp: failure_def)
next
  case False
  then obtain df where df: "dfo = Some df" and len: "CANDLE_LIMIT \<le> length df"
    by (cases dfo) (auto simp: not_less)
  from len have l20: "20 \<le> length df" and ne: "df \<noteq> []" by (auto simp: CANDLE_LIMIT_def)
  from calculate_ema_Some [OF ne] obtain e where e: "calculate_ema L df = Some e" by blast
  obtain u b l where k: "calculate_keltner_channels L df = (u, b, l)"
    by (cases "calculate_keltner_channels L df") auto
  from analyse_facts [OF l20, of L e b] obtain a where a: "analyse L df e b = Some a" by blast
  show ?thesis
    unfolding df run_strategy_long [OF len e k] using a by (auto simp: failure_def)
qed

lemma snapshot_paths:
  "path (snapshot_object L u l a) [''tp''] = Some (level_value (tp (a_final a)))"
  "path (snapshot_object L u l a) [''sl''] = Some (level_value (sl (a_final a)))"
  "path (snapshot_object L u l a) [''status''] = Some (lit (signal_type (a_final a)))"
  "path (snapshot_object L u l a) [''indicators'', ''confidence'']
     = Some (PStr (confidence_status (confidence (a_final a))))"
  "path (snapshot_object L u l a) [''breakout'', ''bullish'']
     = Some (scenario_object (map_option
         (\<lambda>sc. (rsi_bull L, stoch_bull L, bullish_signal sc, bull_tp sc, bull_sl sc)) (a_breakout a)))"
  "path (snapshot_object L u l a) [''breakout'', ''bearish'']
     = Some (scenario_object (map_option
         (\<lambda>sc. (rsi_bear L, stoch_bear L, bearish_signal sc, bear_tp sc, bear_sl sc)) (a_breakout a)))"
  by (simp_all add: snapshot_object_def Let_def)

lemma result_path_Cons:
  "result_path (Some (d, ok)) (k # ks) = (case map_of d k of None \<Rightarrow> None | Some w \<Rightarrow> path w ks)"
  by (simp add: result_path_def)

lemma analysis_of_facts:
  assumes "20 \<le> length df" "analysis_of L df = Some a"
  shows "detect_support_resistance_zones df = Some (a_zones a)"
    and "a_price a = Close (last df)"
    and "conditions_of L df = Some (a_conditions a)"
    and "a_derived a = decide (a_conditions a) (a_zones a) (a_price a)"
    and "forecast_integration df (a_zones a) (a_price a) (a_derived a) = Some (a_refined a)"
    and "risk_reward_adjustment (a_price a) (a_refined a) = Some (a_final a)"
    and "a_breakout a = (if signal_type (a_final a) = ''NO SIGNAL''
                         then breakout_simulation L df (a_zones a) (a_price a) else None)"
proof -
  from assms(2) obtain e where e: "calculate_ema L df = Some e"
    and a: "analyse L df e (basis_of L df) = Some a"
    by (auto simp: analysis_of_def split: Option.bind_splits)
  from analyse_facts [OF assms(1), of L e "basis_of L df"] a
  have f: "detect_support_resistance_zones df = Some (a_zones a)"
    "a_price a = Close (last df)"
    "a_conditions a = signal_conditions L e (basis_of L df) (Close (last df)) (Close (df ! (length df - 20)))"
    "a_derived a = decide (a_conditions a) (a_zones a) (a_price a)"
    "forecast_integration df (a_zones a) (a_price a) (a_derived a) = Some (a_refined a)"
    "risk_reward_adjustment (a_price a) (a_refined a) = Some (a_final a)"
    "a_breakout a = (if signal_type (a_final a) = ''NO SIGNAL''
                         then breakout_simulation L df (a_zones a) (a_price a) else None)"
    by auto
  from f show "detect_support_resistance_zones df = Some (a_zones a)"
    "a_price a = Close (last df)"
    "a_derived a = decide (a_conditions a) (a_zones a) (a_price a)"
    "forecast_integration df (a_zones a) (a_price a) (a_derived a) = Some (a_refined a)"
    "risk_reward_adjustment (a_price a) (a_refined a) = Some (a_final a)"
    "a_breakout a = (if signal_type (a_final a) = ''NO SIGNAL''
                         then breakout_simulation L df (a_zones a) (a_price a) else None)"
    by simp_all
  show "conditions_of L df = Some (a_conditions a)"
    by (simp add: conditions_of_def e closes_Some [OF assms(1)] f(3))
qed

lemma analysis_signal:
  assumes "20 \<le> length df" "analysis_of L df = Some a"
  shows "signal_type (a_final a) = decision_ladder L (a_conditions a)"
    and "signal_type (a_refined a) = signal_type (a_final a)"
    and "signal_type (a_derived a) = signal_type (a_final a)"
    and "confidence (a_final a) = confidence (a_derived a)"
    and "sl (a_final a) = sl (a_refined a)"
proof -
  note f = analysis_of_facts [OF assms]
  from f(3) have "\<exists>e. a_conditions a = signal_conditions L e (basis_of L df) (Close (last df)) (Close (df ! (length df - 20)))"
    apply (auto simp: conditions_of_def closes_Some [OF assms(1)] split: Option.bind_splits)
    apply (rule exI, rule sym, assumption)
    done
  then obtain e where c: "a_conditions a = signal_conditions L e (basis_of L df) (Close (last df)) (Close (df ! (length df - 20)))"
    by blast
  have d0: "signal_type (a_derived a) = decision_ladder L (a_conditions a)"
    unfolding f(4) f(2) c by (rule decide_is_ladder)
  note k = forecast_integration_keeps [OF f(5)]
  have lv: "signal_type (a_refined a) \<noteq> ''NO SIGNAL'' \<longrightarrow> (\<exists>s t. sl (a_refined a) = Some s \<and> tp (a_refined a) = Some t)"
    using refined_exists [of df "a_zones a" "a_price a" "a_conditions a"] assms(1) f(4) f(5) by auto
  from final_exists [OF lv, of "a_price a"] f(6)
  have r: "signal_type (a_final a) = signal_type (a_refined a)" "sl (a_final a) = sl (a_refined a)"
    "confidence (a_final a) = confidence (a_refined a)" by auto
  show "signal_type (a_final a) = decision_ladder L (a_conditions a)" using r k d0 by simp
  show "signal_type (a_refined a) = signal_type (a_final a)" using r by simp
  show "signal_type (a_derived a) = signal_type (a_final a)" using r k by simp
  show "confidence (a_final a) = confidence (a_derived a)" using r k by simp
  show "sl (a_final a) = sl (a_refined a)" using r by simp
qed

lemma run_strategy_result:
  assumes "succeeded (run_strategy L (Some df))"
  shows "\<exists>a. analysis_of L df = Some a \<and> CANDLE_LIMIT \<le> length df
     \<and> result_path (run_strategy L (Some df)) [''signal''] = Some (lit (signal_type (a_final a)))
     \<and> result_path (run_strategy L (Some df)) [''tp''] = Some (level_value (tp (a_final a)))
     \<and> result_path (run_strategy L (Some df)) [''sl''] = Some (level_value (sl (a_final a)))
     \<and> result_path (run_strategy L (Some df)) [''confidence''] = None
     \<and> result_path (run_strategy L (Some df)) [''snapshot'', ''indicators'', ''confidence'']
         = Some (PStr (confidence_status (confidence (a_final a))))
     \<and> result_path (run_strategy L (Some df)) [''snapshot'', ''breakout'', ''bullish'']
         = Some (scenario_object (map_option
             (\<lambda>sc. (rsi_bull L, stoch_bull L, bullish_signal sc, bull_tp sc, bull_sl sc)) (a_breakout a)))
     \<and> result_path (run_strategy L (Some df)) [''snapshot'', ''breakout'', ''bearish'']
         = Some (scenario_object (map_option
             (\<lambda>sc. (rsi_bear L, stoch_bear L, bearish_signal sc, bear_tp sc, bear_sl sc)) (a_breakout a)))"
proof -
  from run_strategy_success [OF assms]
  obtain e a where len: "CANDLE_LIMIT \<le> length df" and a: "analysis_of L df = Some a"
    and r: "run_strategy L (Some df) =
               Some ([(''signal'', lit (signal_type (a_final a))),
                      (''tp'', level_value (tp (a_final a))),
                      (''sl'', level_value (sl (a_final a))),
                      (''chart_base64'', lit (chart_base64 L)),
                      (''snapshot'', snapshot_object L (fst (calculate_keltner_channels L df))
                                       (snd (snd (calculate_keltner_channels L df))) a)], True)"
    by auto
  show ?thesis
    unfolding r using a len by (simp add: result_path_Cons snapshot_paths del: path.simps(2))
qed

lemma succeeded_iff:
  assumes "CANDLE_LIMIT \<le> length df" "calculate_ema L df = Some e"
    "calculate_keltner_channels L df = (u, b, l)"
  shows "succeeded (run_strategy L (Some df)) \<longleftrightarrow>
           \<not> (np_eq (ema100 e) (Fin 0) \<or> np_eq (ema200 e) (Fin 0) \<or> np_eq u (Fin 0) \<or> np_eq l (Fin 0))"
proof -
  from assms(1) have l20: "20 \<le> length df" by (simp add: CANDLE_LIMIT_def)
  from analyse_facts [OF l20, of L e b] obtain a where a: "analyse L df e b = Some a" by blast
  show ?thesis
    unfolding run_strategy_long [OF assms] using a
    by (auto simp: succeeded_def failure_def)
qed

subsection \<open>The example inputs\<close>

lemma example_lengths:
  "length df_rising = 50" "length df_falling = 50" "length df_flat = 50" "length df_zero = 50"
  by (simp_all add: df_rising_def df_falling_def df_flat_def df_zero_def)

lemma example_closes:
  "Close (last df_rising) = 100" "Close (df_rising ! 30) = 90"
  "Close (last df_falling) = 90" "Close (df_falling ! 30) = 100"
  "Close (last df_flat) = 90" "Close (df_flat ! 30) = 90"
  "Close (last df_zero) = 0" "Close (df_zero ! 30) = 0"
  by (simp_all add: df_rising_def df_falling_def df_flat_def df_zero_def nth_append)

lemma example_last_close:
  "iloc_neg (map Close df_rising) (Suc 0) = Some 100"
  "iloc_neg (map Close df_falling) (Suc 0) = Some 90"
  "iloc_neg (map Close df_flat) (Suc 0) = Some 90"
  "iloc_neg (map Close df_zero) (Suc 0) = Some 0"
  using closes_Some(1) [of df_rising] closes_Some(1) [of df_falling]
    closes_Some(1) [of df_flat] closes_Some(1) [of df_zero]
  by (simp_all add: example_lengths example_closes)

lemma example_close_20:
  "iloc_neg (map Close df_rising) 20 = Some 90"
  "iloc_neg (map Close df_falling) 20 = Some 100"
  "iloc_neg (map Close df_flat) 20 = Some 90"
  using closes_Some(2) [of df_rising] closes_Some(2) [of df_falling] closes_Some(2) [of df_flat]
  by (simp_all add: example_lengths example_closes)

lemma example_emas:
  "calculate_ema L_bull df_rising = Some \<lparr>ema100 = Fin 95, ema200 = Fin 92\<rparr>"
  "calculate_ema L_mid df_rising = Some \<lparr>ema100 = Fin 95, ema200 = Fin 92\<rparr>"
  "calculate_ema L_bear df_falling = Some \<lparr>ema100 = Fin 85, ema200 = Fin 92\<rparr>"
  "calculate_ema L_flat df_flat = Some \<lparr>ema100 = Fin 90, ema200 = Fin 90\<rparr>"
  "calculate_ema L_nan df_zero = Some \<lparr>ema100 = Fin 0, ema200 = Fin 0\<rparr>"
  "calculate_ema (L_nan\<lparr>ema100_raw := Fin 5, ema200_raw := Fin 5\<rparr>) df_zero
     = Some \<lparr>ema100 = Fin 5, ema200 = Fin 5\<rparr>"
  by (simp_all add: calculate_ema_def example_last_close L_bull_def L_mid_def L_bear_def
      L_flat_def L_nan_def notna_def np_eq_def Let_def)

lemma example_keltner:
  "calculate_keltner_channels L_bull df_rising = (Fin 98, Fin 93, Fin 88)"
  "calculate_keltner_channels L_mid df_rising = (Fin 98, Fin 93, Fin 88)"
  "calculate_keltner_channels L_bear df_falling = (Fin 100, Fin 95, Fin 91)"
  "calculate_keltner_channels L_flat df_flat = (Fin 92, Fin 90, Fin 88)"
  "calculate_keltner_channels (L_nan\<lparr>ema100_raw := Fin 5, ema200_raw := Fin 5\<rparr>) df_zero
     = (Fin 0, Fin 0, Fin 0)"
  by (simp_all add: calculate_keltner_channels_def example_last_close L_bull_def L_mid_def
      L_bear_def L_flat_def L_nan_def isna_def np_eq_def)

lemma example_succeeded:
  "succeeded (run_strategy L_bull (Some df_rising))"
  "succeeded (run_strategy L_bear (Some df_falling))"
  "succeeded (run_strategy L_flat (Some df_flat))"
  by (simp_all add: succeeded_iff [OF _ example_emas(1) example_keltner(1)]
      succeeded_iff [OF _ example_emas(3) example_keltner(3)]
      succeeded_iff [OF _ example_emas(4) example_keltner(4)]
      CANDLE_LIMIT_def example_lengths np_eq_def)

lemma example_fields:
  "rsi_last L_bull = Fin 60"
  "rsi_prev L_bull = Fin 55"
  "stoch_k_last L_bull = Fin 70"
  "stoch_k_prev L_bull = Fin 60"
  "rsi_last L_mid = Fin 60"
  "rsi_prev L_mid = Fin 55"
  "stoch_k_last L_mid = Fin 50"
  "stoch_k_prev L_mid = Fin 50"
  "rsi_last L_bear = Fin 40"
  "rsi_prev L_bear = Fin 45"
  "stoch_k_last L_bear = Fin 30"
  "stoch_k_prev L_bear = Fin 40"
  "rsi_last L_flat = Fin 50"
  "rsi_prev L_flat = Fin 50"
  "stoch_k_last L_flat = NaN"
  "stoch_k_prev L_flat = NaN"
  by (simp_all add: L_bull_def L_mid_def L_bear_def L_flat_def)

lemma example_conditions:
  "conditions_of L_bull df_rising =
     Some \<lparr>bullish_rsi = True, bearish_rsi = False, bullish_stoch = True,
           bearish_stoch = False, bullish_price = True, bearish_price = False,
           bullish_ema = True, bearish_ema = False,
           price_momentum = Fin (100 / 9), bullish_momentum = True,
           bearish_momentum = False, not_overbought = True,
           not_oversold = True, bullish_points = 5, bearish_points = 0\<rparr>"
  "conditions_of L_mid df_rising =
     Some \<lparr>bullish_rsi = True, bearish_rsi = False, bullish_stoch = True,
           bearish_stoch = True, bullish_price = True, bearish_price = False,
           bullish_ema = True, bearish_ema = False,
           price_momentum = Fin (100 / 9), bullish_momentum = True,
           bearish_momentum = False, not_overbought = True, not_oversold = True,
           bullish_points = 5, bearish_points = 1\<rparr>"
  "conditions_of L_bear df_falling =
     Some \<lparr>bullish_rsi = False, bearish_rsi = True, bullish_stoch = False,
           bearish_stoch = True, bullish_price = False, bearish_price = True,
           bullish_ema = False, bearish_ema = True,
           price_momentum = Fin (- 10), bullish_momentum = False,
           bearish_momentum = True, not_overbought = True,
           not_oversold = True, bullish_points = 0, bearish_points = 5\<rparr>"
  "conditions_of L_flat df_flat =
     Some \<lparr>bullish_rsi = False, bearish_rsi = False, bullish_stoch = False,
           bearish_stoch = False, bullish_price = False,
           bearish_price = False, bullish_ema = False, bearish_ema = False,
           price_momentum = Fin 0, bullish_momentum = False,
           bearish_momentum = False, not_overbought = False,
           not_oversold = False, bullish_points = 0, bearish_points = 0\<rparr>"
  by (simp_all add: conditions_of_def example_emas example_last_close example_close_20
      basis_of_def example_keltner signal_conditions_def Let_def np_gt_def np_le_def np_ge_def
      np_eq_def np_div_def sum_bools_def example_fields)

subsection \<open>Signals, points and levels\<close>

lemma run_strategy_cases:
  "(\<exists>msg. run_strategy L dfo = Some (failure msg)) \<or> succeeded (run_strategy L dfo)"
proof (cases "dfo = None \<or> (\<exists>df. dfo = Some df \<and> length df < CANDLE_LIMIT)")
  case True
  from run_strategy_short [OF this, of L] show ?thesis by blast
next
  case False
  then obtain df where df: "dfo = Some df" and len: "CANDLE_LIMIT \<le> length df"
    by (cases dfo) (auto simp: not_less)
  from len have l20: "20 \<le> length df" and ne: "df \<noteq> []" by (auto simp: CANDLE_LIMIT_def)
  from calculate_ema_Some [OF ne] obtain e where e: "calculate_ema L df = Some e" by blast
  obtain u b l where k: "calculate_keltner_channels L df = (u, b, l)"
    by (cases "calculate_keltner_channels L df") auto
  from analyse_facts [OF l20, of L e b] obtain a where a: "analyse L df e b = Some a" by blast
  show ?thesis
    unfolding df run_strategy_long [OF len e k] using a by (auto simp: succeeded_def)
qed

lemma decision_ladder_values:
  "decision_ladder L c = ''BUY'' \<or> decision_ladder L c = ''SELL'' \<or> decision_ladder L c = ''NO SIGNAL''"
  by (simp add: decision_ladder_def)

lemma conditions_points:
  "bullish_points (signal_conditions L e b p c20) =
     sum_bools [bullish_rsi (signal_conditions L e b p c20), bullish_stoch (signal_conditions L e b p c20),
                bullish_price (signal_conditions L e b p c20), bullish_ema (signal_conditions L e b p c20),
                bullish_momentum (signal_conditions L e b p c20)]"
  "bearish_points (signal_conditions L e b p c20) =
     sum_bools [bearish_rsi (signal_conditions L e b p c20), bearish_stoch (signal_conditions L e b p c20),
                bearish_price (signal_conditions L e b p c20), bearish_ema (signal_conditions L e b p c20),
                bearish_momentum (signal_conditions L e b p c20)]"
  by (simp_all add: signal_conditions_def Let_def)

lemma conditions_of_points:
  assumes "conditions_of L df = Some c"
  shows "bullish_points c =
           sum_bools [bullish_rsi c, bullish_stoch c, bullish_price c, bullish_ema c, bullish_momentum c]"
    and "bearish_points c =
           sum_bools [bearish_rsi c, bearish_stoch c, bearish_price c, bearish_ema c, bearish_momentum c]"
  using assms conditions_points
  by (auto simp: conditions_of_def split: Option.bind_splits)

lemma sum_bools_le: "sum_bools bs \<le> length bs"
  by (simp add: sum_bools_def)

lemma final_levels:
  assumes "20 \<le> length df" "analysis_of L df = Some a"
  shows "signal_type (a_final a) = ''NO SIGNAL'' \<longrightarrow> sl (a_final a) = None \<and> tp (a_final a) = None"
    and "signal_type (a_final a) \<noteq> ''NO SIGNAL'' \<longrightarrow> (\<exists>s t. sl (a_final a) = Some s \<and> tp (a_final a) = Some t)"
proof -
  note f = analysis_of_facts [OF assms]
  note g = analysis_signal [OF assms]
  show "signal_type (a_final a) = ''NO SIGNAL'' \<longrightarrow> sl (a_final a) = None \<and> tp (a_final a) = None"
  proof
    assume n: "signal_type (a_final a) = ''NO SIGNAL''"
    with g(3) have d: "signal_type (a_derived a) = ''NO SIGNAL''" by simp
    with f(4) decide_none [of "a_conditions a" "a_zones a" "a_price a"]
    have "sl (a_derived a) = None \<and> tp (a_derived a) = None" by simp
    moreover from f(5) d have "a_refined a = a_derived a" by (simp add: forecast_integration_none)
    moreover from f(6) n g(2) have "a_final a = a_refined a" by (simp add: risk_reward_none)
    ultimately show "sl (a_final a) = None \<and> tp (a_final a) = None" by simp
  qed
  show "signal_type (a_final a) \<noteq> ''NO SIGNAL'' \<longrightarrow> (\<exists>s t. sl (a_final a) = Some s \<and> tp (a_final a) = Some t)"
  proof
    assume n: "signal_type (a_final a) \<noteq> ''NO SIGNAL''"
    from assms(1) have ten: "10 \<le> length df" by simp
    from refined_exists [OF ten, of "a_zones a" "a_price a" "a_conditions a"] f(4) f(5) g(2) n
    obtain s t where st: "sl (a_refined a) = Some s" "tp (a_refined a) = Some t" by auto
    from risk_reward_levels [OF st, of "a_price a"] obtain t' where
      "risk_reward_adjustment (a_price a) (a_refined a) = Some (a_refined a\<lparr>tp := Some t'\<rparr>)"
      by blast
    with f(6) have "a_final a = a_refined a\<lparr>tp := Some t'\<rparr>" by simp
    with st show "\<exists>s t. sl (a_final a) = Some s \<and> tp (a_final a) = Some t" by simp
  qed
qed

lemma analysis_conditions:
  assumes "20 \<le> length df" "analysis_of L df = Some a" "conditions_of L df = Some c"
  shows "a_conditions a = c"
  using analysis_of_facts(3) [OF assms(1,2)] assms(3) by simp

lemma example_signals:
  "analysis_of L_bull df_rising = Some a \<Longrightarrow> signal_type (a_final a) = ''BUY''"
  "analysis_of L_bear df_falling = Some a \<Longrightarrow> signal_type (a_final a) = ''SELL''"
  "analysis_of L_flat df_flat = Some a \<Longrightarrow> signal_type (a_final a) = ''NO SIGNAL''"
proof -
  have l: "20 \<le> length df_rising" "20 \<le> length df_falling" "20 \<le> length df_flat"
    by (simp_all add: example_lengths)
  show "analysis_of L_bull df_rising = Some a \<Longrightarrow> signal_type (a_final a) = ''BUY''"
    using analysis_signal(1) [OF l(1), of L_bull a]
      analysis_conditions [OF l(1) _ example_conditions(1), of a]
    by (simp add: decision_ladder_def)
  show "analysis_of L_bear df_falling = Some a \<Longrightarrow> signal_type (a_final a) = ''SELL''"
    using analysis_signal(1) [OF l(2), of L_bear a]
      analysis_conditions [OF l(2) _ example_conditions(3), of a]
    by (simp add: decision_ladder_def)
  show "analysis_of L_flat df_flat = Some a \<Longrightarrow> signal_type (a_final a) = ''NO SIGNAL''"
    using analysis_signal(1) [OF l(3), of L_flat a]
      analysis_conditions [OF l(3) _ example_conditions(4), of a]
    by (simp add: decision_ladder_def)
qed

lemma scenario_object_paths:
  "path (scenario_object (Some (r, k, s, t, l))) [''rsi''] = Some (PStr (format_strategy_number r))"
  "path (scenario_object (Some (r, k, s, t, l))) [''stochastic''] = Some (PStr (format_strategy_number k))"
  "path (scenario_object (Some (r, k, s, t, l))) [''signal''] = Some (lit s)"
  "path (scenario_object (Some (r, k, s, t, l))) [''tp''] = Some (PStr (format_price t))"
  "path (scenario_object (Some (r, k, s, t, l))) [''sl''] = Some (PStr (format_price l))"
  "scenario_object None = empty_scenario"
  by (simp_all add: scenario_object_def empty_scenario_def)

lemma path_append:
  "path v (ks @ ks') = (case path v ks of None \<Rightarrow> None | Some w \<Rightarrow> path w ks')"
  by (induction ks arbitrary: v) (auto split: option.splits)

lemma result_path_append:
  "result_path r (ks @ ks') = (case result_path r ks of None \<Rightarrow> None | Some w \<Rightarrow> path w ks')"
  by (cases r) (auto simp: result_path_def path_append)

lemma main_success:
  assumes "succeeded (run_strategy L (Some df))"
  shows "\<exists>response. main pair timeframe coin_id L (Some df) = Inr response"
proof -
  from run_strategy_success [OF assms]
  obtain e a where len: "CANDLE_LIMIT \<le> length df"
    and r: "run_strategy L (Some df) =
               Some ([(''signal'', lit (signal_type (a_final a))),
                      (''tp'', level_value (tp (a_final a))),
                      (''sl'', level_value (sl (a_final a))),
                      (''chart_base64'', lit (chart_base64 L)),
                      (''snapshot'', snapshot_object L (fst (calculate_keltner_channels L df))
                                       (snd (snd (calculate_keltner_channels L df))) a)], True)"
    by auto
  from len have ne: "df \<noteq> []" by (auto simp: CANDLE_LIMIT_def)
  show ?thesis
    using ne by (simp add: main_def r dict_get_def snapshot_object_def Let_def)
qed

subsection \<open>Widening of the levels\<close>










subsection \<open>Feature flags\<close>

lemma rsi_flags_exclusive:
  "\<not> (bullish_rsi (signal_conditions L e b p c20) \<and> bearish_rsi (signal_conditions L e b p c20))"
  by (cases "rsi_last L")
     (auto simp: signal_conditions_def Let_def np_gt_def np_le_def np_ge_def np_eq_def)

lemma momentum_flags_exclusive:
  "\<not> (bullish_momentum (signal_conditions L e b p c20)
       \<and> bearish_momentum (signal_conditions L e b p c20))"
  by (cases "np_scale (np_div (p - c20) c20) 100")
     (auto simp: signal_conditions_def Let_def np_gt_def)

lemma price_flags_exclusive:
  "\<not> np_lt b (Fin 0) \<Longrightarrow>
     \<not> (bullish_price (signal_conditions L e b p c20) \<and> bearish_price (signal_conditions L e b p c20))"
  by (cases b) (auto simp: signal_conditions_def Let_def np_gt_def)

lemma ema_flags_exclusive:
  "\<not> np_lt (ema200 e) (Fin 0) \<Longrightarrow>
     \<not> (bullish_ema (signal_conditions L e b p c20) \<and> bearish_ema (signal_conditions L e b p c20))"
  by (cases "ema200 e"; cases "ema100 e") (auto simp: signal_conditions_def Let_def np_gt_def)

lemma stoch_flags_range:
  "bullish_stoch (signal_conditions L e b p c20) \<and> bearish_stoch (signal_conditions L e b p c20)
     \<Longrightarrow> np_gt (stoch_k_last L) (Fin 20) \<and> np_lt (stoch_k_last L) (Fin 80)"
  by (simp add: signal_conditions_def Let_def)

subsection \<open>A forecast over a flat tail\<close>

lemma quantile_replicate:
  assumes "0 < n" "0 \<le> q" "q \<le> 1"
  shows "quantile (replicate n y) q = y"
proof -
  have s: "sort (replicate n y) = replicate n y"
    by (rule sorted_sort_id) simp
  have "real (n - 1) * q \<le> real (n - 1)"
    using assms(3) by (simp add: mult_left_le)
  then have "\<lfloor>real (n - 1) * q\<rfloor> \<le> int (n - 1)" by linarith
  then have lo: "nat \<lfloor>real (n - 1) * q\<rfloor> < n" using assms(1) by linarith
  have hi: "min (nat \<lfloor>real (n - 1) * q\<rfloor> + 1) (n - 1) < n" using assms(1) by simp
  show ?thesis
    unfolding quantile_def s Let_def length_replicate
    by (simp only: nth_replicate [OF lo] nth_replicate [OF hi]) simp
qed

lemma forecast_prices_flat:
  assumes "10 \<le> length df" "Close (df ! (length df - 10)) = Close (last df)"
  shows "forecast_prices df 30 =
           Some (replicate 30 \<lparr>yhat = Close (last df), yhat_lower = Close (last df) * 0.95,
                                yhat_upper = Close (last df) * 1.05\<rparr>)"
  unfolding forecast_prices_rows [OF assms(1)] assms(2)
  by (simp add: map_replicate_const)

lemma forecast_levels_flat:
  "Min (set (map yhat_lower (replicate 30 r))) = yhat_lower r"
  "Max (set (map yhat_upper (replicate 30 r))) = yhat_upper r"
  "quantile (map yhat (replicate 30 r)) 0.75 = yhat r"
  "quantile (map yhat (replicate 30 r)) 0.25 = yhat r"
  by (simp_all add: quantile_replicate)

lemma example_zones:
  "detect_support_resistance_zones df_rising = Some ((60, 60), 101, 101)"
  "detect_support_resistance_zones df_falling = Some ((89, 89), 130, 130)"
  by code_simp+

lemma example_tail_closes:
  "Close (df_rising ! 40) = 100" "Close (df_falling ! 40) = 90"
  by (simp_all add: df_rising_def df_falling_def nth_append)

lemma example_forecasts:
  "forecast_prices df_rising 30 = Some (replicate 30 \<lparr>yhat = 100, yhat_lower = 95, yhat_upper = 105\<rparr>)"
  "forecast_prices df_falling 30 = Some (replicate 30 \<lparr>yhat = 90, yhat_lower = 171 / 2, yhat_upper = 189 / 2\<rparr>)"
  using forecast_prices_flat [of df_rising] forecast_prices_flat [of df_falling]
  by (simp_all add: example_lengths example_closes example_tail_closes)

lemma example_levels:
  assumes "analysis_of L_bull df_rising = Some a"
  shows "sl (a_derived a) = Some 60" "tp (a_derived a) = Some (203 / 2)"
    "sl (a_refined a) = Some 60" "tp (a_refined a) = Some 102"
    "confidence (a_derived a) = 100"
proof -
  have l: "20 \<le> length df_rising" "10 \<le> length df_rising" by (simp_all add: example_lengths)
  note f = analysis_of_facts [OF l(1) assms]
  have z: "a_zones a = ((60, 60), 101, 101)" using f(1) by (simp add: example_zones)
  have p: "a_price a = 100" using f(2) by (simp add: example_closes)
  have c: "a_conditions a = \<lparr>bullish_rsi = True, bearish_rsi = False, bullish_stoch = True,
           bearish_stoch = False, bullish_price = True, bearish_price = False,
           bullish_ema = True, bearish_ema = False,
           price_momentum = Fin (100 / 9), bullish_momentum = True,
           bearish_momentum = False, not_overbought = True,
           not_oversold = True, bullish_points = 5, bearish_points = 0\<rparr>"
    by (rule analysis_conditions [OF l(1) assms example_conditions(1)])
  have d0: "a_derived a = \<lparr>signal_type = ''BUY'', confidence = 100, sl = Some 60, tp = Some (203 / 2)\<rparr>"
    unfolding f(4) z p c by (simp add: decide_def Let_def)
  then show "sl (a_derived a) = Some 60" "tp (a_derived a) = Some (203 / 2)" by simp_all
  have b: "signal_type (a_derived a) = ''BUY''" using d0 by simp
  from forecast_integration_buy [OF l(2) b, of "a_zones a" "a_price a"] f(5)
  have "a_refined a = (a_derived a)\<lparr>sl := Some 60, tp := Some 102\<rparr>"
    by (auto simp: example_forecasts forecast_levels_flat quantile_replicate z p)
  then show "sl (a_refined a) = Some 60" "tp (a_refined a) = Some 102" by simp_all
  show "confidence (a_derived a) = 100" using d0 by simp
qed


lemma df_ten_eval: "length df_ten = 10" "Close (last df_ten) = 10" "Close (df_ten ! 0) = 1"
  by (simp_all add: df_ten_def last_map)

section \<open>Claims\<close>




text \<open>
  C2. For a missing series and for every series with fewer than \<open>CANDLE_LIMIT = 50\<close>
  candles, \<open>run_strategy\<close> returns the failure result: signal \<open>NO SIGNAL\<close>, both levels the
  number 0 (no price), the success flag unset and a message in place of the report. With
  50 or more candles it returns the same failure result when an EMA value or the upper or
  lower Keltner band, as computed by the wrappers, is zero.
\<close>

theorem guard_stage_failure:
  "CANDLE_LIMIT = 50
   \<and> (dfo = None \<or> (\<exists>df. dfo = Some df \<and> length df < CANDLE_LIMIT)
        \<longrightarrow> failure_result (run_strategy L dfo))
   \<and> (\<forall>df e u b l.
         dfo = Some df \<and> CANDLE_LIMIT \<le> length df \<and> calculate_ema L df = Some e
         \<and> calculate_keltner_channels L df = (u, b, l)
         \<and> (np_eq (ema100 e) (Fin 0) \<or> np_eq (ema200 e) (Fin 0)
              \<or> np_eq u (Fin 0) \<or> np_eq l (Fin 0))
         \<longrightarrow> failure_result (run_strategy L dfo))"
proof (intro conjI impI allI)
  show "CANDLE_LIMIT = 50" by (simp add: CANDLE_LIMIT_def)
next
  assume "dfo = None \<or> (\<exists>df. dfo = Some df \<and> length df < CANDLE_LIMIT)"
  from run_strategy_short [OF this, of L] show "failure_result (run_strategy L dfo)"
    by (simp add: failure_result_failure)
next
  fix df e u b l
  assume h: "dfo = Some df \<and> CANDLE_LIMIT \<le> length df \<and> calculate_ema L df = Some e
         \<and> calculate_keltner_channels L df = (u, b, l)
         \<and> (np_eq (ema100 e) (Fin 0) \<or> np_eq (ema200 e) (Fin 0)
              \<or> np_eq u (Fin 0) \<or> np_eq l (Fin 0))"
  then have r: "run_strategy L (Some df) =
           (if np_eq (ema100 e) (Fin 0) \<or> np_eq (ema200 e) (Fin 0)
            then Some (failure ''Error: Invalid EMA data'')
            else Some (failure ''Error: Invalid Keltner data''))"
    using run_strategy_long [of df L e u b l] by auto
  from h have dfo: "dfo = Some df" by simp
  show "failure_result (run_strategy L dfo)"
    unfolding dfo r by (simp add: failure_result_failure)
qed

theorem guard_stage_failure_witness:
  "failure_result (run_strategy L_bull None)
   \<and> failure_result (run_strategy L_bull (Some (take 49 df_rising)))
   \<and> failure_result (run_strategy L_nan (Some df_zero))
   \<and> failure_result (run_strategy (L_nan\<lparr>ema100_raw := Fin 5, ema200_raw := Fin 5\<rparr>) (Some df_zero))"
proof -
  have a: "failure_result (run_strategy L_bull None)"
    using guard_stage_failure [of None L_bull] by simp
  have b: "failure_result (run_strategy L_bull (Some (take 49 df_rising)))"
    using guard_stage_failure [of "Some (take 49 df_rising)" L_bull]
    by (simp add: example_lengths)
  have c: "failure_result (run_strategy L_nan (Some df_zero))"
    using guard_stage_failure [of "Some df_zero" L_nan] example_emas(5)
    by (cases "calculate_keltner_channels L_nan df_zero")
       (simp add: example_lengths np_eq_def)
  have d: "failure_result (run_strategy (L_nan\<lparr>ema100_raw := Fin 5, ema200_raw := Fin 5\<rparr>) (Some df_zero))"
    using guard_stage_failure [of "Some df_zero" "L_nan\<lparr>ema100_raw := Fin 5, ema200_raw := Fin 5\<rparr>"]
      example_emas(6) example_keltner(5)
    by (simp add: example_lengths np_eq_def)
  from a b c d show ?thesis by simp
qed

text \<open>
  C3. The signal of a successful \<open>run_strategy\<close> is the one the ordered guard list of the
  specification selects, first match winning: strong bullish gives BUY, else strong
  bearish gives SELL, else \<open>bullish_points \<ge> 2\<close> with RSI below 70 and \<open>%K\<close> below 80 gives BUY,
  else \<open>bearish_points \<ge> 2\<close> with RSI above 30 and \<open>%K\<close> above 20 gives SELL, else
  \<open>NO SIGNAL\<close>. Whatever the input, the signal of the result is one of \<open>BUY\<close>,
  \<open>SELL\<close> and \<open>NO SIGNAL\<close>.
\<close>

theorem decision_precedence:
  "(succeeded (run_strategy L (Some df)) \<longrightarrow>
      (\<exists>c. conditions_of L df = Some c
          \<and> result_path (run_strategy L (Some df)) [''signal''] = Some (lit (decision_ladder L c))))
   \<and> (result_path (run_strategy L dfo) [''signal''] = Some (lit ''BUY'')
       \<or> result_path (run_strategy L dfo) [''signal''] = Some (lit ''SELL'')
       \<or> result_path (run_strategy L dfo) [''signal''] = Some (lit ''NO SIGNAL''))"
proof -
  have main: "\<exists>c. conditions_of L df = Some c
          \<and> result_path (run_strategy L (Some df)) [''signal''] = Some (lit (decision_ladder L c))"
    if s: "succeeded (run_strategy L (Some df))" for df
  proof -
    from run_strategy_result [OF s] obtain a where a: "analysis_of L df = Some a"
      and len: "CANDLE_LIMIT \<le> length df"
      and sig: "result_path (run_strategy L (Some df)) [''signal''] = Some (lit (signal_type (a_final a)))"
      by blast
    from len have l20: "20 \<le> length df" by (simp add: CANDLE_LIMIT_def)
    from analysis_of_facts(3) [OF l20 a] analysis_signal(1) [OF l20 a] sig
    show ?thesis by simp
  qed
  have any: "result_path (run_strategy L dfo) [''signal''] = Some (lit ''BUY'')
       \<or> result_path (run_strategy L dfo) [''signal''] = Some (lit ''SELL'')
       \<or> result_path (run_strategy L dfo) [''signal''] = Some (lit ''NO SIGNAL'')"
  proof -
    from run_strategy_cases [of L dfo]
    consider (fail) msg where "run_strategy L dfo = Some (failure msg)"
      | (ok) "succeeded (run_strategy L dfo)" by blast
    then show ?thesis
    proof cases
      case fail
      then show ?thesis by (simp add: failure_def result_path_def)
    next
      case ok
      from run_strategy_success [OF ok] obtain df' where d: "dfo = Some df'" by blast
      from main [of df'] ok d obtain c where
        "result_path (run_strategy L dfo) [''signal''] = Some (lit (decision_ladder L c))"
        by auto
      with decision_ladder_values [of L c] show ?thesis by auto
    qed
  qed
  from main any show ?thesis by blast
qed

theorem decision_precedence_witness:
  "result_path (run_strategy L_bull (Some df_rising)) [''signal''] = Some (lit ''BUY'')
   \<and> result_path (run_strategy L_bear (Some df_falling)) [''signal''] = Some (lit ''SELL'')
   \<and> result_path (run_strategy L_flat (Some df_flat)) [''signal''] = Some (lit ''NO SIGNAL'')"
  using decision_precedence [of L_bull df_rising None]
    decision_precedence [of L_bear df_falling None]
    decision_precedence [of L_flat df_flat None]
  by (simp add: example_succeeded example_conditions decision_ladder_def)

text \<open>
  C4. For every input series, the RSI feature and the momentum feature never
  have their bullish and their bearish flag true at once, and neither has the
  price-versus-basis feature when the Keltner basis is not negative, nor the EMA feature
  when the slow EMA is not negative (a feature may have neither flag set). The Stochastic
  feature can have both flags true at once, and only while \<open>%K\<close> lies strictly between 20
  and 80, for instance at \<open>%K = 50\<close>.
\<close>

theorem feature_flags_exclusive:
  assumes "conditions_of L df = Some c"
  shows "\<not> (bullish_rsi c \<and> bearish_rsi c)
     \<and> \<not> (bullish_momentum c \<and> bearish_momentum c)
     \<and> (\<not> np_lt (basis_of L df) (Fin 0) \<longrightarrow> \<not> (bullish_price c \<and> bearish_price c))
     \<and> (\<forall>e. calculate_ema L df = Some e \<and> \<not> np_lt (ema200 e) (Fin 0)
            \<longrightarrow> \<not> (bullish_ema c \<and> bearish_ema c))
     \<and> (bullish_stoch c \<and> bearish_stoch c
            \<longrightarrow> np_gt (stoch_k_last L) (Fin 20) \<and> np_lt (stoch_k_last L) (Fin 80))"
proof -
  from assms obtain e p c20 where e: "calculate_ema L df = Some e"
    and c: "c = signal_conditions L e (basis_of L df) p c20"
    by (auto simp: conditions_of_def split: Option.bind_splits)
  show ?thesis
    unfolding c
    using rsi_flags_exclusive [of L e "basis_of L df" p c20]
      momentum_flags_exclusive [of L e "basis_of L df" p c20]
      price_flags_exclusive [of "basis_of L df" L e p c20]
      ema_flags_exclusive [of e L "basis_of L df" p c20]
      stoch_flags_range [of L e "basis_of L df" p c20] e
    by auto
qed

theorem feature_flags_exclusive_witness:
  "(\<exists>c. conditions_of L_bull df_rising = Some c
      \<and> bullish_rsi c \<and> \<not> bearish_rsi c \<and> bullish_momentum c \<and> \<not> bearish_momentum c
      \<and> bullish_price c \<and> \<not> bearish_price c \<and> bullish_ema c \<and> \<not> bearish_ema c)
   \<and> (\<exists>c. conditions_of L_mid df_rising = Some c \<and> bullish_stoch c \<and> bearish_stoch c
      \<and> np_gt (stoch_k_last L_mid) (Fin 20) \<and> np_lt (stoch_k_last L_mid) (Fin 80))"
proof -
  have b: "\<not> np_lt (basis_of L_bull df_rising) (Fin 0)"
    by (simp add: basis_of_def example_keltner)
  have e: "calculate_ema L_bull df_rising = Some \<lparr>ema100 = Fin 95, ema200 = Fin 92\<rparr>
           \<and> \<not> np_lt (ema200 \<lparr>ema100 = Fin 95, ema200 = Fin 92\<rparr>) (Fin 0)"
    by (simp add: example_emas)
  from feature_flags_exclusive [OF example_conditions(1)] b e
  have bull: "\<exists>c. conditions_of L_bull df_rising = Some c
      \<and> bullish_rsi c \<and> \<not> bearish_rsi c \<and> bullish_momentum c \<and> \<not> bearish_momentum c
      \<and> bullish_price c \<and> \<not> bearish_price c \<and> bullish_ema c \<and> \<not> bearish_ema c"
    by (simp add: example_conditions)
  from feature_flags_exclusive [OF example_conditions(2)]
  have mid: "\<exists>c. conditions_of L_mid df_rising = Some c \<and> bullish_stoch c \<and> bearish_stoch c
      \<and> np_gt (stoch_k_last L_mid) (Fin 20) \<and> np_lt (stoch_k_last L_mid) (Fin 80)"
    by (simp add: example_conditions)
  from bull mid show ?thesis by blast
qed

theorem stochastic_flags_counterexample:
  "map_option bullish_stoch (conditions_of L_mid df_rising) = Some True
   \<and> map_option bearish_stoch (conditions_of L_mid df_rising) = Some True"
  by (simp add: example_conditions)

text \<open>
  C5. In a successful run the confidence rendered into the report is the voting value
  \<open>max(bullish_points, bearish_points) / 5 * 100\<close>, raised to at least 70 when a strong
  condition holds; each points count is the sum of the five flags of its side; the
  confidence lies between 0 and 100, and is at least 70 when a strong condition holds.
\<close>

theorem confidence_bounds:
  assumes "succeeded (run_strategy L (Some df))"
  shows "\<exists>c conf. conditions_of L df = Some c
     \<and> result_path (run_strategy L (Some df)) [''snapshot'', ''indicators'', ''confidence'']
         = Some (PStr (confidence_status conf))
     \<and> bullish_points c = sum_bools [bullish_rsi c, bullish_stoch c, bullish_price c,
                                       bullish_ema c, bullish_momentum c]
     \<and> bearish_points c = sum_bools [bearish_rsi c, bearish_stoch c, bearish_price c,
                                       bearish_ema c, bearish_momentum c]
     \<and> conf = (if strong_condition c
               then max 70 (real (max (bullish_points c) (bearish_points c)) / 5 * 100)
               else real (max (bullish_points c) (bearish_points c)) / 5 * 100)
     \<and> 0 \<le> conf \<and> conf \<le> 100 \<and> (strong_condition c \<longrightarrow> 70 \<le> conf)"
proof -
  from run_strategy_result [OF assms] obtain a where a: "analysis_of L df = Some a"
    and len: "CANDLE_LIMIT \<le> length df"
    and cf: "result_path (run_strategy L (Some df)) [''snapshot'', ''indicators'', ''confidence'']
         = Some (PStr (confidence_status (confidence (a_final a))))"
    by blast
  from len have l20: "20 \<le> length df" by (simp add: CANDLE_LIMIT_def)
  note f = analysis_of_facts [OF l20 a]
  note g = analysis_signal [OF l20 a]
  define c where "c = a_conditions a"
  define v where "v = real (max (bullish_points c) (bearish_points c)) / 5 * 100"
  have c: "conditions_of L df = Some c" using f(3) by (simp add: c_def)
  note pts = conditions_of_points [OF c]
  have "bullish_points c \<le> 5" "bearish_points c \<le> 5"
    using sum_bools_le [of "[bullish_rsi c, bullish_stoch c, bullish_price c, bullish_ema c, bullish_momentum c]"]
      sum_bools_le [of "[bearish_rsi c, bearish_stoch c, bearish_price c, bearish_ema c, bearish_momentum c]"]
      pts by simp_all
  then have "max (bullish_points c) (bearish_points c) \<le> 5" by simp
  then have "real (max (bullish_points c) (bearish_points c)) \<le> 5" by linarith
  then have v: "0 \<le> v" "v \<le> 100" by (simp_all add: v_def)
  have conf: "confidence (a_final a) = (if strong_condition c then max 70 v else v)"
    unfolding g(4) f(4) decide_confidence by (simp add: c_def v_def)
  have "0 \<le> confidence (a_final a)" "confidence (a_final a) \<le> 100"
    "strong_condition c \<longrightarrow> 70 \<le> confidence (a_final a)"
    using v unfolding conf by auto
  with c cf pts conf show ?thesis unfolding v_def by blast
qed

theorem confidence_bounds_witness:
  "\<exists>c conf. conditions_of L_bull df_rising = Some c \<and> strong_condition c
     \<and> result_path (run_strategy L_bull (Some df_rising)) [''snapshot'', ''indicators'', ''confidence'']
         = Some (PStr (confidence_status conf))
     \<and> conf = 100"
proof -
  from confidence_bounds [OF example_succeeded(1)] obtain c conf where
    c: "conditions_of L_bull df_rising = Some c"
    and r: "result_path (run_strategy L_bull (Some df_rising)) [''snapshot'', ''indicators'', ''confidence'']
         = Some (PStr (confidence_status conf))"
    and v: "conf = (if strong_condition c
               then max 70 (real (max (bullish_points c) (bearish_points c)) / 5 * 100)
               else real (max (bullish_points c) (bearish_points c)) / 5 * 100)"
    by blast
  from c have s: "strong_condition c" "bullish_points c = 5" "bearish_points c = 0"
    by (auto simp: example_conditions strong_condition_def)
  with v have "conf = 100" by simp
  with c r s show ?thesis by blast
qed

text \<open>
  C6. In a successful run the breakout scenarios are computed if and only if the
  primary decision is \<open>NO SIGNAL\<close>. In that case both scenario objects of the snapshot are
  populated: the bullish one has signal \<open>BUY\<close> exactly when the RSI of the bullish copy is
  above 52 and its \<open>%K\<close> above 45 (else \<open>NO SIGNAL\<close>), the bearish one has signal \<open>SELL\<close>
  exactly when the RSI of the bearish copy is below 48 and its \<open>%K\<close> below 55 (else
  \<open>NO SIGNAL\<close>). When a primary BUY or SELL fires, both scenario objects are still present
  in the output, with every field \<open>None\<close>.
\<close>

theorem breakout_scenarios:
  assumes "succeeded (run_strategy L (Some df))"
  shows "\<exists>a. analysis_of L df = Some a
     \<and> result_path (run_strategy L (Some df)) [''signal''] = Some (lit (signal_type (a_final a)))
     \<and> (a_breakout a \<noteq> None \<longleftrightarrow> signal_type (a_final a) = ''NO SIGNAL'')
     \<and> (signal_type (a_final a) = ''NO SIGNAL'' \<longrightarrow>
           result_path (run_strategy L (Some df)) [''snapshot'', ''breakout'', ''bullish'', ''signal'']
             = Some (lit (if np_gt (rsi_bull L) (Fin 52) \<and> np_gt (stoch_bull L) (Fin 45)
                          then ''BUY'' else ''NO SIGNAL''))
           \<and> result_path (run_strategy L (Some df)) [''snapshot'', ''breakout'', ''bearish'', ''signal'']
             = Some (lit (if np_lt (rsi_bear L) (Fin 48) \<and> np_lt (stoch_bear L) (Fin 55)
                          then ''SELL'' else ''NO SIGNAL''))
           \<and> result_path (run_strategy L (Some df)) [''snapshot'', ''breakout'', ''bullish'', ''rsi'']
             = Some (PStr (format_strategy_number (rsi_bull L)))
           \<and> result_path (run_strategy L (Some df)) [''snapshot'', ''breakout'', ''bullish'', ''stochastic'']
             = Some (PStr (format_strategy_number (stoch_bull L)))
           \<and> result_path (run_strategy L (Some df)) [''snapshot'', ''breakout'', ''bearish'', ''rsi'']
             = Some (PStr (format_strategy_number (rsi_bear L)))
           \<and> result_path (run_strategy L (Some df)) [''snapshot'', ''breakout'', ''bearish'', ''stochastic'']
             = Some (PStr (format_strategy_number (stoch_bear L))))
     \<and> (signal_type (a_final a) \<noteq> ''NO SIGNAL'' \<longrightarrow>
           result_path (run_strategy L (Some df)) [''snapshot'', ''breakout'', ''bullish'']
             = Some empty_scenario
           \<and> result_path (run_strategy L (Some df)) [''snapshot'', ''breakout'', ''bearish'']
             = Some empty_scenario)"
proof -
  from run_strategy_result [OF assms] obtain a where a: "analysis_of L df = Some a"
    and len: "CANDLE_LIMIT \<le> length df"
    and sig: "result_path (run_strategy L (Some df)) [''signal''] = Some (lit (signal_type (a_final a)))"
    and bull: "result_path (run_strategy L (Some df)) [''snapshot'', ''breakout'', ''bullish'']
         = Some (scenario_object (map_option
             (\<lambda>sc. (rsi_bull L, stoch_bull L, bullish_signal sc, bull_tp sc, bull_sl sc)) (a_breakout a)))"
    and bear: "result_path (run_strategy L (Some df)) [''snapshot'', ''breakout'', ''bearish'']
         = Some (scenario_object (map_option
             (\<lambda>sc. (rsi_bear L, stoch_bear L, bearish_signal sc, bear_tp sc, bear_sl sc)) (a_breakout a)))"
    by blast
  from len have l20: "20 \<le> length df" and ten: "10 \<le> length df" by (simp_all add: CANDLE_LIMIT_def)
  note f = analysis_of_facts [OF l20 a]
  from breakout_simulation_Some [OF ten, of L "a_zones a" "a_price a"]
  obtain sc where sc: "breakout_simulation L df (a_zones a) (a_price a) = Some sc"
    and bs: "bullish_signal sc = (if np_gt (rsi_bull L) (Fin 52) \<and> np_gt (stoch_bull L) (Fin 45) then ''BUY'' else ''NO SIGNAL'')"
    and ss: "bearish_signal sc = (if np_lt (rsi_bear L) (Fin 48) \<and> np_lt (stoch_bear L) (Fin 55) then ''SELL'' else ''NO SIGNAL'')"
    by blast
  have iff: "a_breakout a \<noteq> None \<longleftrightarrow> signal_type (a_final a) = ''NO SIGNAL''"
    using f(7) sc by simp
  have p4: "[''snapshot'', ''breakout'', ''bullish'', k] = [''snapshot'', ''breakout'', ''bullish''] @ [k]"
    "[''snapshot'', ''breakout'', ''bearish'', k] = [''snapshot'', ''breakout'', ''bearish''] @ [k]" for k
    by simp_all
  have none: "signal_type (a_final a) = ''NO SIGNAL'' \<longrightarrow>
           result_path (run_strategy L (Some df)) [''snapshot'', ''breakout'', ''bullish'', ''signal'']
             = Some (lit (if np_gt (rsi_bull L) (Fin 52) \<and> np_gt (stoch_bull L) (Fin 45)
                          then ''BUY'' else ''NO SIGNAL''))
           \<and> result_path (run_strategy L (Some df)) [''snapshot'', ''breakout'', ''bearish'', ''signal'']
             = Some (lit (if np_lt (rsi_bear L) (Fin 48) \<and> np_lt (stoch_bear L) (Fin 55)
                          then ''SELL'' else ''NO SIGNAL''))
           \<and> result_path (run_strategy L (Some df)) [''snapshot'', ''breakout'', ''bullish'', ''rsi'']
             = Some (PStr (format_strategy_number (rsi_bull L)))
           \<and> result_path (run_strategy L (Some df)) [''snapshot'', ''breakout'', ''bullish'', ''stochastic'']
             = Some (PStr (format_strategy_number (stoch_bull L)))
           \<and> result_path (run_strategy L (Some df)) [''snapshot'', ''breakout'', ''bearish'', ''rsi'']
             = Some (PStr (format_strategy_number (rsi_bear L)))
           \<and> result_path (run_strategy L (Some df)) [''snapshot'', ''breakout'', ''bearish'', ''stochastic'']
             = Some (PStr (format_strategy_number (stoch_bear L)))"
  proof
    assume n: "signal_type (a_final a) = ''NO SIGNAL''"
    with f(7) sc have b: "a_breakout a = Some sc" by simp
    show "result_path (run_strategy L (Some df)) [''snapshot'', ''breakout'', ''bullish'', ''signal'']
             = Some (lit (if np_gt (rsi_bull L) (Fin 52) \<and> np_gt (stoch_bull L) (Fin 45)
                          then ''BUY'' else ''NO SIGNAL''))
           \<and> result_path (run_strategy L (Some df)) [''snapshot'', ''breakout'', ''bearish'', ''signal'']
             = Some (lit (if np_lt (rsi_bear L) (Fin 48) \<and> np_lt (stoch_bear L) (Fin 55)
                          then ''SELL'' else ''NO SIGNAL''))
           \<and> result_path (run_strategy L (Some df)) [''snapshot'', ''breakout'', ''bullish'', ''rsi'']
             = Some (PStr (format_strategy_number (rsi_bull L)))
           \<and> result_path (run_strategy L (Some df)) [''snapshot'', ''breakout'', ''bullish'', ''stochastic'']
             = Some (PStr (format_strategy_number (stoch_bull L)))
           \<and> result_path (run_strategy L (Some df)) [''snapshot'', ''breakout'', ''bearish'', ''rsi'']
             = Some (PStr (format_strategy_number (rsi_bear L)))
           \<and> result_path (run_strategy L (Some df)) [''snapshot'', ''breakout'', ''bearish'', ''stochastic'']
             = Some (PStr (format_strategy_number (stoch_bear L)))"
      unfolding p4 result_path_append bull bear b
      by (simp add: scenario_object_paths bs ss del: path.simps(2))
  qed
  have some: "signal_type (a_final a) \<noteq> ''NO SIGNAL'' \<longrightarrow>
           result_path (run_strategy L (Some df)) [''snapshot'', ''breakout'', ''bullish'']
             = Some empty_scenario
           \<and> result_path (run_strategy L (Some df)) [''snapshot'', ''breakout'', ''bearish'']
             = Some empty_scenario"
    using f(7) bull bear by (simp add: scenario_object_paths)
  from a sig iff none some show ?thesis by blast
qed

theorem breakout_scenarios_witness:
  "result_path (run_strategy L_flat (Some df_flat)) [''signal''] = Some (lit ''NO SIGNAL'')
   \<and> result_path (run_strategy L_flat (Some df_flat)) [''snapshot'', ''breakout'', ''bullish'', ''signal'']
       = Some (lit ''BUY'')
   \<and> result_path (run_strategy L_flat (Some df_flat)) [''snapshot'', ''breakout'', ''bearish'', ''signal'']
       = Some (lit ''SELL'')
   \<and> result_path (run_strategy L_bear (Some df_falling)) [''snapshot'', ''breakout'', ''bearish'']
       = Some empty_scenario"
proof -
  from breakout_scenarios [OF example_succeeded(3)] obtain a where
    a: "analysis_of L_flat df_flat = Some a"
    and sig: "result_path (run_strategy L_flat (Some df_flat)) [''signal''] = Some (lit (signal_type (a_final a)))"
    and n: "signal_type (a_final a) = ''NO SIGNAL'' \<longrightarrow>
           result_path (run_strategy L_flat (Some df_flat)) [''snapshot'', ''breakout'', ''bullish'', ''signal'']
             = Some (lit (if np_gt (rsi_bull L_flat) (Fin 52) \<and> np_gt (stoch_bull L_flat) (Fin 45)
                          then ''BUY'' else ''NO SIGNAL''))
           \<and> result_path (run_strategy L_flat (Some df_flat)) [''snapshot'', ''breakout'', ''bearish'', ''signal'']
             = Some (lit (if np_lt (rsi_bear L_flat) (Fin 48) \<and> np_lt (stoch_bear L_flat) (Fin 55)
                          then ''SELL'' else ''NO SIGNAL''))"
    by blast
  from breakout_scenarios [OF example_succeeded(2)] obtain a' where
    a': "analysis_of L_bear df_falling = Some a'"
    and s: "signal_type (a_final a') \<noteq> ''NO SIGNAL'' \<longrightarrow>
           result_path (run_strategy L_bear (Some df_falling)) [''snapshot'', ''breakout'', ''bearish'']
             = Some empty_scenario"
    by blast
  from example_signals(3) [OF a] sig n example_signals(2) [OF a'] s show ?thesis
    by (simp add: L_flat_def np_gt_def)
qed

theorem breakout_absent_counterexample:
  "result_path (run_strategy L_bull (Some df_rising)) [''signal''] = Some (lit ''BUY'')
   \<and> result_path (run_strategy L_bull (Some df_rising)) [''snapshot'', ''breakout'', ''bullish'']
       = Some (PDict [(''rsi'', PNone), (''stochastic'', PNone), (''signal'', PNone),
                      (''tp'', PNone), (''sl'', PNone)])
   \<and> result_path (run_strategy L_bull (Some df_rising)) [''snapshot'', ''breakout'', ''bearish'']
       = Some (PDict [(''rsi'', PNone), (''stochastic'', PNone), (''signal'', PNone),
                      (''tp'', PNone), (''sl'', PNone)])"
proof -
  from run_strategy_result [OF example_succeeded(1)] obtain a where
    a: "analysis_of L_bull df_rising = Some a"
    and sig: "result_path (run_strategy L_bull (Some df_rising)) [''signal''] = Some (lit (signal_type (a_final a)))"
    and bull: "result_path (run_strategy L_bull (Some df_rising)) [''snapshot'', ''breakout'', ''bullish'']
         = Some (scenario_object (map_option
             (\<lambda>sc. (rsi_bull L_bull, stoch_bull L_bull, bullish_signal sc, bull_tp sc, bull_sl sc)) (a_breakout a)))"
    and bear: "result_path (run_strategy L_bull (Some df_rising)) [''snapshot'', ''breakout'', ''bearish'']
         = Some (scenario_object (map_option
             (\<lambda>sc. (rsi_bear L_bull, stoch_bear L_bull, bearish_signal sc, bear_tp sc, bear_sl sc)) (a_breakout a)))"
    by blast
  have l20: "20 \<le> length df_rising" by (simp add: example_lengths)
  note b = example_signals(1) [OF a]
  with analysis_of_facts(7) [OF l20 a] have "a_breakout a = None" by simp
  with sig bull bear b show ?thesis
    by (simp add: scenario_object_def)
qed



text \<open>
  C8. \<open>forecast_prices\<close> returns \<open>None\<close> for every series with fewer than 10 candles.
  Otherwise, for a horizon \<open>periods \<ge> 0\<close> (the callers pass 30), it returns exactly
  \<open>periods\<close> rows, and row \<open>i\<close> has \<open>yhat = last_close + trend * (i + 1)\<close> with
  \<open>trend = (last close - first of the last ten closes) / 10\<close>, \<open>yhat_lower = yhat * 0.95\<close>
  and \<open>yhat_upper = yhat * 1.05\<close>. The close ten periods back is the one at position
  \<open>-10\<close>, the first of the last ten closes.
\<close>

theorem forecast_prices_contract:
  "(length df < 10 \<longrightarrow> forecast_prices df periods = None) \<and>
   (10 \<le> length df \<and> 0 \<le> periods \<longrightarrow>
      (\<exists>rows. forecast_prices df periods = Some rows \<and> int (length rows) = periods \<and>
         (\<forall>i < length rows.
            yhat (rows ! i) = Close (last df) + (Close (last df) - Close (df ! (length df - 10))) / 10 * (real i + 1)
            \<and> yhat_lower (rows ! i) = yhat (rows ! i) * 0.95
            \<and> yhat_upper (rows ! i) = yhat (rows ! i) * 1.05)))"
proof (intro conjI impI)
  assume "length df < 10"
  then show "forecast_prices df periods = None" by (simp add: forecast_prices_def)
next
  assume h: "10 \<le> length df \<and> 0 \<le> periods"
  then show "\<exists>rows. forecast_prices df periods = Some rows \<and> int (length rows) = periods \<and>
         (\<forall>i < length rows.
            yhat (rows ! i) = Close (last df) + (Close (last df) - Close (df ! (length df - 10))) / 10 * (real i + 1)
            \<and> yhat_lower (rows ! i) = yhat (rows ! i) * 0.95
            \<and> yhat_upper (rows ! i) = yhat (rows ! i) * 1.05)"
    by (simp add: forecast_prices_rows)
qed

theorem forecast_prices_contract_witness:
  "forecast_prices [] 30 = None \<and>
   (\<exists>rows. forecast_prices df_ten 30 = Some rows \<and> length rows = 30
      \<and> yhat (rows ! 0) = 109 / 10 \<and> yhat_lower (rows ! 0) = 2071 / 200
      \<and> yhat_upper (rows ! 29) = 777 / 20)"
proof -
  have a: "forecast_prices [] 30 = None"
    using forecast_prices_contract [of "[]" 30] by simp
  from forecast_prices_contract [of df_ten 30]
  obtain rows where r: "forecast_prices df_ten 30 = Some rows" "int (length rows) = 30"
    and all: "\<forall>i < length rows.
            yhat (rows ! i) = Close (last df_ten) + (Close (last df_ten) - Close (df_ten ! (length df_ten - 10))) / 10 * (real i + 1)
            \<and> yhat_lower (rows ! i) = yhat (rows ! i) * 0.95
            \<and> yhat_upper (rows ! i) = yhat (rows ! i) * 1.05"
    by (auto simp: df_ten_eval)
  from r have len: "length rows = 30" by simp
  from all [rule_format, of 0] all [rule_format, of 29] len
  have "yhat (rows ! 0) = 109 / 10" "yhat_lower (rows ! 0) = 2071 / 200"
    "yhat_upper (rows ! 29) = 777 / 20"
    by (simp_all add: df_ten_eval)
  with a r len show ?thesis by simp
qed

text \<open>
  C9. In a successful run with decision \<open>NO SIGNAL\<close> the stop-loss and the
  take-profit are \<open>None\<close> inside the engine, and the returned record carries the number 0
  for both, not a null value. For a BUY or SELL decision both entries of the returned
  record are the prices the engine computed.
\<close>

theorem levels_in_result:
  assumes "succeeded (run_strategy L (Some df))"
  shows "\<exists>a. analysis_of L df = Some a
     \<and> result_path (run_strategy L (Some df)) [''signal''] = Some (lit (signal_type (a_final a)))
     \<and> (signal_type (a_final a) = ''NO SIGNAL'' \<longrightarrow>
           sl (a_final a) = None \<and> tp (a_final a) = None
           \<and> result_path (run_strategy L (Some df)) [''sl''] = Some (num 0)
           \<and> result_path (run_strategy L (Some df)) [''tp''] = Some (num 0))
     \<and> (signal_type (a_final a) \<noteq> ''NO SIGNAL'' \<longrightarrow>
           (\<exists>s t. sl (a_final a) = Some s \<and> tp (a_final a) = Some t
              \<and> result_path (run_strategy L (Some df)) [''sl''] = Some (num s)
              \<and> result_path (run_strategy L (Some df)) [''tp''] = Some (num t)))"
proof -
  from run_strategy_result [OF assms] obtain a where a: "analysis_of L df = Some a"
    and len: "CANDLE_LIMIT \<le> length df"
    and sig: "result_path (run_strategy L (Some df)) [''signal''] = Some (lit (signal_type (a_final a)))"
    and t: "result_path (run_strategy L (Some df)) [''tp''] = Some (level_value (tp (a_final a)))"
    and s: "result_path (run_strategy L (Some df)) [''sl''] = Some (level_value (sl (a_final a)))"
    by blast
  from len have l20: "20 \<le> length df" by (simp add: CANDLE_LIMIT_def)
  note lv = final_levels [OF l20 a]
  from a sig t s lv show ?thesis
    by (auto simp: level_value_def)
qed

theorem levels_in_result_witness:
  "(\<exists>s t. result_path (run_strategy L_bull (Some df_rising)) [''signal''] = Some (lit ''BUY'')
      \<and> result_path (run_strategy L_bull (Some df_rising)) [''sl''] = Some (num s)
      \<and> result_path (run_strategy L_bull (Some df_rising)) [''tp''] = Some (num t))
   \<and> result_path (run_strategy L_flat (Some df_flat)) [''signal''] = Some (lit ''NO SIGNAL'')
   \<and> result_path (run_strategy L_flat (Some df_flat)) [''sl''] = Some (num 0)
   \<and> result_path (run_strategy L_flat (Some df_flat)) [''tp''] = Some (num 0)"
proof -
  from levels_in_result [OF example_succeeded(1)] obtain a where
    a: "analysis_of L_bull df_rising = Some a"
    and sig: "result_path (run_strategy L_bull (Some df_rising)) [''signal''] = Some (lit (signal_type (a_final a)))"
    and lv: "signal_type (a_final a) \<noteq> ''NO SIGNAL'' \<longrightarrow>
           (\<exists>s t. sl (a_final a) = Some s \<and> tp (a_final a) = Some t
              \<and> result_path (run_strategy L_bull (Some df_rising)) [''sl''] = Some (num s)
              \<and> result_path (run_strategy L_bull (Some df_rising)) [''tp''] = Some (num t))"
    by blast
  from example_signals(1) [OF a] sig lv
  have bull: "\<exists>s t. result_path (run_strategy L_bull (Some df_rising)) [''signal''] = Some (lit ''BUY'')
      \<and> result_path (run_strategy L_bull (Some df_rising)) [''sl''] = Some (num s)
      \<and> result_path (run_strategy L_bull (Some df_rising)) [''tp''] = Some (num t)"
    by auto
  from levels_in_result [OF example_succeeded(3)] obtain a' where
    a': "analysis_of L_flat df_flat = Some a'"
    and sig': "result_path (run_strategy L_flat (Some df_flat)) [''signal''] = Some (lit (signal_type (a_final a')))"
    and lv': "signal_type (a_final a') = ''NO SIGNAL'' \<longrightarrow>
           sl (a_final a') = None \<and> tp (a_final a') = None
           \<and> result_path (run_strategy L_flat (Some df_flat)) [''sl''] = Some (num 0)
           \<and> result_path (run_strategy L_flat (Some df_flat)) [''tp''] = Some (num 0)"
    by blast
  from example_signals(3) [OF a'] sig' lv' bull show ?thesis by simp
qed

theorem null_levels_counterexample:
  "succeeded (run_strategy L_flat (Some df_flat))
   \<and> result_path (run_strategy L_flat (Some df_flat)) [''signal''] = Some (lit ''NO SIGNAL'')
   \<and> result_path (run_strategy L_flat (Some df_flat)) [''tp''] = Some (num 0)
   \<and> result_path (run_strategy L_flat (Some df_flat)) [''sl''] = Some (num 0)
   \<and> result_path (run_strategy L_flat (Some df_flat)) [''tp''] \<noteq> Some PNone
   \<and> result_path (run_strategy L_flat (Some df_flat)) [''sl''] \<noteq> Some PNone"
proof -
  from run_strategy_result [OF example_succeeded(3)] obtain a where
    a: "analysis_of L_flat df_flat = Some a"
    and sig: "result_path (run_strategy L_flat (Some df_flat)) [''signal''] = Some (lit (signal_type (a_final a)))"
    and t: "result_path (run_strategy L_flat (Some df_flat)) [''tp''] = Some (level_value (tp (a_final a)))"
    and s: "result_path (run_strategy L_flat (Some df_flat)) [''sl''] = Some (level_value (sl (a_final a)))"
    by blast
  have l20: "20 \<le> length df_flat" by (simp add: example_lengths)
  note n = example_signals(3) [OF a]
  with final_levels(1) [OF l20 a] have "sl (a_final a) = None" "tp (a_final a) = None"
    by simp_all
  with sig t s n show ?thesis
    by (simp add: level_value_def example_succeeded)
qed

text \<open>
  C10. Whenever the command-line wrapper prints a response, its \<open>confidence\<close> field is 50:
  the record returned by \<open>run_strategy\<close> has no top-level \<open>confidence\<close> key, and the
  wrapper's \<open>get\<close> falls back to its default.
\<close>

theorem cli_confidence_default:
  assumes "main pair timeframe coin_id L crypto_data = Inr response"
  shows "map_of response ''confidence'' = Some (num 50)
     \<and> succeeded (run_strategy L crypto_data)
     \<and> result_path (run_strategy L crypto_data) [''confidence''] = None"
proof -
  from assms obtain df where df: "crypto_data = Some df" and ne: "df \<noteq> []"
    by (cases crypto_data) (auto simp: main_def split: if_splits)
  from run_strategy_returns [of L "Some df"] obtain r ok where
    run: "run_strategy L (Some df) = Some (r, ok)" by blast
  from assms have ok: "ok" unfolding df main_def using ne run
    by (auto split: if_splits)
  with run have s: "succeeded (run_strategy L (Some df))" by (simp add: succeeded_def)
  from run_strategy_success [OF s] run obtain a u l where
    r: "r = [(''signal'', lit (signal_type (a_final a))),
             (''tp'', level_value (tp (a_final a))),
             (''sl'', level_value (sl (a_final a))),
             (''chart_base64'', lit (chart_base64 L)),
             (''snapshot'', snapshot_object L u l a)]"
    by auto
  have g: "dict_get r ''confidence'' (num 50) = num 50"
    by (simp add: r dict_get_def)
  from assms have c: "map_of response ''confidence'' = Some (num 50)"
    unfolding df main_def using ne run ok g
    by (auto split: option.splits Option.bind_splits)
  from run_strategy_result [OF s]
  have "result_path (run_strategy L (Some df)) [''confidence''] = None" by blast
  with c s show ?thesis unfolding df by simp
qed

theorem cli_confidence_default_witness:
  "\<exists>response. main ''BTCUSDT'' ''15m'' ''bitcoin'' L_bull (Some df_rising) = Inr response
     \<and> map_of response ''confidence'' = Some (num 50)
     \<and> result_path (run_strategy L_bull (Some df_rising)) [''confidence''] = None
     \<and> result_path (run_strategy L_bull (Some df_rising)) [''snapshot'', ''indicators'', ''confidence'']
         = Some (PStr (confidence_status 100))"
proof -
  from main_success [OF example_succeeded(1)] obtain response where
    r: "main ''BTCUSDT'' ''15m'' ''bitcoin'' L_bull (Some df_rising) = Inr response" by blast
  from run_strategy_result [OF example_succeeded(1)] obtain a where
    a: "analysis_of L_bull df_rising = Some a"
    and cf: "result_path (run_strategy L_bull (Some df_rising)) [''snapshot'', ''indicators'', ''confidence'']
         = Some (PStr (confidence_status (confidence (a_final a))))"
    by blast
  have l20: "20 \<le> length df_rising" by (simp add: example_lengths)
  from analysis_signal(4) [OF l20 a] example_levels(5) [OF a]
  have "confidence (a_final a) = 100" by simp
  with cf cli_confidence_default [OF r] r show ?thesis by auto
qed

end
